theory Spec2Isabelle
  imports Complex_Main
begin

section \<open>The dashboard client of llm-monitor\<close>

text \<open>
  The sources are the Vue components \<^verbatim>\<open>ui/src/components/Llmm.vue\<close> and
  \<^verbatim>\<open>ui/src/views/ChatView.vue\<close>. Each method of a component becomes a function
  on the component's data; what the browser and the network hand to a method (how a
  request settles, the chunks a stream reader returns, a library function such as
  \<^verbatim>\<open>JSON.parse\<close>) is an argument of the function. A method runs from its call to
  its end: what other methods do to the data while it waits for the network is not
  modelled.

  The percentage of a pull is computed in binary64 arithmetic, as the engine computes it.
  The VRAM usage is computed over exact rationals: the rounding of its quotient and product
  to binary64 is not modelled. Strings are lists of 8-bit characters.
\<close>

subsection \<open>JavaScript strings and numbers\<close>

text \<open>Decimal rendering of a non-negative integer.\<close>

definition digit_char :: "nat \<Rightarrow> char" where
  "digit_char d = ''0123456789'' ! d"

fun string_of_nat :: "nat \<Rightarrow> string" where
  "string_of_nat n =
     (if n < 10 then [digit_char n] else string_of_nat (n div 10) @ [digit_char (n mod 10)])"

declare string_of_nat.simps [simp del]

text \<open>
  \<^verbatim>\<open>Number.prototype.toFixed(f)\<close>: the sign is split off, the magnitude is
  scaled by \<open>10 ^ f\<close> and rounded to the nearest integer (the larger one on a tie), and the
  digits are padded to at least \<open>f + 1\<close> places before the point is inserted.
\<close>

definition toFixed :: "nat \<Rightarrow> rat \<Rightarrow> string" where
  "toFixed f x =
     (let s = (if x < 0 then ''-'' else '''');
          n = nat \<lfloor>\<bar>x\<bar> * 10 ^ f + 1 / 2\<rfloor>;
          m = string_of_nat n
      in if f = 0 then s @ m
         else (let k = length m;
                   m' = (if k \<le> f then replicate (f + 1 - k) CHR ''0'' @ m else m);
                   k' = length m'
               in s @ take (k' - f) m' @ ''.'' @ drop (k' - f) m'))"

text \<open>\<^verbatim>\<open>Math.round\<close>: the nearest integer, the larger one on a tie.\<close>

definition Math_round :: "rat \<Rightarrow> int" where
  "Math_round x = \<lfloor>x + 1 / 2\<rfloor>"

text \<open>
  Binary64 arithmetic on finite values, without the bounds on the exponent.
  \<open>normalise p q k\<close> scales the positive quotient \<open>p / q\<close> by powers of
  two into the interval from \<open>2 ^ 52\<close> up to \<open>2 ^ 53\<close>, keeping \<open>(p / q) * 2 ^ k\<close>
  unchanged. \<open>nearest_double p q k\<close> is the binary64 number nearest to \<open>(p / q) * 2 ^ k\<close>
  as a 53-bit significand and an exponent, with ties going to the even significand.
\<close>

function normalise :: "int \<Rightarrow> int \<Rightarrow> int \<Rightarrow> int \<times> int \<times> int" where
  "normalise p q k =
     (if p \<le> 0 \<or> q \<le> 0 then (p, q, k)
      else if p < 2 ^ 52 * q then normalise (2 * p) q (k - 1)
      else if 2 ^ 53 * q \<le> p then normalise p (2 * q) (k + 1)
      else (p, q, k))"
  by pat_completeness auto
termination
proof (relation "measure (\<lambda>(p, q, k). nat (2 ^ 52 * q - p) + nat (p + 1 - 2 ^ 53 * q))")
  show "wf (measure (\<lambda>(p, q, k). nat (2 ^ 52 * q - p) + nat (p + 1 - 2 ^ 53 * q)))"
    by simp
next
  fix p q k :: int
  assume "\<not> (p \<le> 0 \<or> q \<le> 0)" and "p < 2 ^ 52 * q"
  then show "((2 * p, q, k - 1), p, q, k) \<in>
      measure (\<lambda>(p, q, k). nat (2 ^ 52 * q - p) + nat (p + 1 - 2 ^ 53 * q))"
    by simp
next
  fix p q k :: int
  assume "\<not> (p \<le> 0 \<or> q \<le> 0)" and "\<not> p < 2 ^ 52 * q" and "2 ^ 53 * q \<le> p"
  then show "((p, 2 * q, k + 1), p, q, k) \<in>
      measure (\<lambda>(p, q, k). nat (2 ^ 52 * q - p) + nat (p + 1 - 2 ^ 53 * q))"
    by simp
qed

declare normalise.simps [simp del]

definition nearest_double :: "int \<Rightarrow> int \<Rightarrow> int \<Rightarrow> int \<times> int" where
  "nearest_double p q k =
     (let (p', q', k') = normalise p q k;
          d = p' div q';
          r = p' mod q';
          n = (if 2 * r < q' then d else if q' < 2 * r then d + 1 else if even d then d else d + 1)
      in (n, k'))"

definition pow2 :: "int \<Rightarrow> rat" where
  "pow2 k = (if 0 \<le> k then 2 ^ nat k else 1 / 2 ^ nat (- k))"

text \<open>
  \<^verbatim>\<open>Math.round((completed / total) * 100)\<close> for two integers that are not 0, as the
  engine computes it: each operand is the binary64 number nearest to the integer, the
  quotient and then the product with 100 are each rounded to the nearest binary64 number,
  and \<^verbatim>\<open>Math.round\<close> is taken of the exact value of the result. So 29 of 200 is 14:
  the product is just below 14.5. The result is the engine's as long as nothing overflows
  to infinity, so for all counts below \<open>2 ^ 1000\<close> in magnitude; a quotient too small for
  the normal range rounds to 0 in the engine and here.
\<close>

definition js_percentage :: "int \<Rightarrow> int \<Rightarrow> int" where
  "js_percentage c t =
     (let (nc, kc) = nearest_double \<bar>c\<bar> 1 0;
          (nt, kt) = nearest_double \<bar>t\<bar> 1 0;
          (n1, k1) = nearest_double nc nt (kc - kt);
          (n2, k2) = nearest_double (n1 * 100) 1 k1;
          x = of_int n2 * pow2 k2
      in Math_round (if (c < 0) \<noteq> (t < 0) then - x else x))"

subsection \<open>Model records of a host\<close>

text \<open>
  One entry of \<^verbatim>\<open>plugin.models\<close>. \<open>size_vram\<close> is a byte count and
  \<open>expires_at\<close> the time value (milliseconds since the epoch) of a well-formed, non-empty
  timestamp string; \<open>None\<close> is an absent (or null) field.
\<close>

record ModelRecord =
  name :: string
  size_vram :: "int option"
  expires_at :: "int option"

text \<open>\<^verbatim>\<open>model.size_vram || 0\<close>: an absent value and the number 0 are falsy.\<close>

definition size_vram_or_0 :: "ModelRecord \<Rightarrow> int" where
  "size_vram_or_0 model =
     (case size_vram model of None \<Rightarrow> 0 | Some v \<Rightarrow> if v \<noteq> 0 then v else 0)"

text \<open>
  \<^verbatim>\<open>calculateVramUsage(models)\<close>, \<^verbatim>\<open>formatVramUsage(models)\<close> and
  \<^verbatim>\<open>getVramClass(models)\<close>. The argument is \<open>None\<close> for a null or undefined
  \<^verbatim>\<open>models\<close>; \<^verbatim>\<open>reduce\<close> with an initial value is \<open>foldl\<close>.
\<close>

definition calculateVramUsage :: "ModelRecord list option \<Rightarrow> rat" where
  "calculateVramUsage models =
     (case models of
        None \<Rightarrow> 0
      | Some ms \<Rightarrow>
          if length ms = 0 then 0
          else (let totalVram = foldl (\<lambda>acc model. acc + size_vram_or_0 model) 0 ms
                in (of_int totalVram / (16 * 1024 ^ 3)) * 100))"

definition formatVramUsage :: "ModelRecord list option \<Rightarrow> string" where
  "formatVramUsage models =
     (case models of
        None \<Rightarrow> ''0%''
      | Some ms \<Rightarrow>
          if length ms = 0 then ''0%''
          else (let totalVram = foldl (\<lambda>acc model. acc + size_vram_or_0 model) 0 ms;
                    percentage = (of_int totalVram / (16 * 1024 ^ 3)) * 100
                in toFixed 1 percentage @ ''%''))"

definition getVramClass :: "ModelRecord list option \<Rightarrow> string" where
  "getVramClass models =
     (let usage = calculateVramUsage models
      in if usage > 80 then ''is-danger''
         else if usage > 60 then ''is-warning''
         else ''is-success'')"

text \<open>
  \<^verbatim>\<open>formatTimeRemaining(models)\<close>. The argument \<open>formatDistanceToNow\<close> stands for
  the date-fns function of that name applied with \<^verbatim>\<open>{ addSuffix: true }\<close>; a
  \<^verbatim>\<open>Date\<close> is its time value, and a \<^verbatim>\<open>Date\<close> object is always truthy.
\<close>

definition later_expiry :: "int option \<Rightarrow> ModelRecord \<Rightarrow> int option" where
  "later_expiry latest model =
     (case expires_at model of
        None \<Rightarrow> latest
      | Some expiryTime \<Rightarrow>
          (case latest of
             Some l \<Rightarrow> (if expiryTime > l then Some expiryTime else Some l)
           | None \<Rightarrow> Some expiryTime))"

definition formatTimeRemaining :: "(int \<Rightarrow> string) \<Rightarrow> ModelRecord list option \<Rightarrow> string" where
  "formatTimeRemaining formatDistanceToNow models =
     (case models of
        None \<Rightarrow> ''N/A''
      | Some ms \<Rightarrow>
          if length ms = 0 then ''N/A''
          else (case foldl later_expiry None ms of
                  None \<Rightarrow> ''N/A''
                | Some latestExpiry \<Rightarrow> formatDistanceToNow latestExpiry))"

text \<open>The expiry timestamps carried by a list of models, in list order.\<close>

definition expiries :: "ModelRecord list \<Rightarrow> int list" where
  "expiries ms = List.map_filter expires_at ms"

subsection \<open>JavaScript values, truthiness and string methods\<close>

text \<open>
  A value as \<^verbatim>\<open>JSON.parse\<close> or axios delivers it. An object is the list of its
  properties, each name once. Reading a property that an object does not have gives
  \<open>Undefined\<close>.
\<close>

datatype jsval =
    Undefined
  | Null
  | Bool bool
  | Num rat
  | Str string
  | Arr "jsval list"
  | Obj "(string \<times> jsval) list"

type_synonym js_object = "(string \<times> jsval) list"

fun truthy :: "jsval \<Rightarrow> bool" where
  "truthy Undefined = False"
| "truthy Null = False"
| "truthy (Bool b) = b"
| "truthy (Num r) = (r \<noteq> 0)"
| "truthy (Str s) = (s \<noteq> [])"
| "truthy (Arr xs) = True"
| "truthy (Obj kvs) = True"

text \<open>
  \<^verbatim>\<open>obj.key\<close> on an object, for the names the component reads (none of them a name
  that every object inherits). The component reads properties off response bodies and host
  records, which are objects.
\<close>

definition get_prop :: "js_object \<Rightarrow> string \<Rightarrow> jsval" where
  "get_prop kvs k = (case map_of kvs k of None \<Rightarrow> Undefined | Some v \<Rightarrow> v)"

text \<open>\<^verbatim>\<open>a || b\<close> on values.\<close>

definition or_else :: "jsval \<Rightarrow> jsval \<Rightarrow> jsval" where
  "or_else a b = (if truthy a then a else b)"

text \<open>
  The white space that \<^verbatim>\<open>String.prototype.trim\<close> strips, among the characters
  below 256: tab, line feed, vertical tab, form feed, carriage return, space and the
  no-break space.
\<close>

definition js_whitespace :: "char \<Rightarrow> bool" where
  "js_whitespace c = (c \<in> set [CHR 0x09, CHR 0x0A, CHR 0x0B, CHR 0x0C, CHR 0x0D, CHR 0x20, CHR 0xA0])"

definition trim :: "string \<Rightarrow> string" where
  "trim s = rev (dropWhile js_whitespace (rev (dropWhile js_whitespace s)))"

text \<open>\<^verbatim>\<open>s.split('\n')\<close>: the pieces between line feeds; never an empty list.\<close>

fun split_newline :: "string \<Rightarrow> string list" where
  "split_newline [] = [[]]"
| "split_newline (c # cs) =
     (if c = CHR 0x0A then [] # split_newline cs
      else (case split_newline cs of [] \<Rightarrow> [[c]] | l # ls \<Rightarrow> (c # l) # ls))"

definition startsWith :: "string \<Rightarrow> string \<Rightarrow> bool" where
  "startsWith s p = (take (length p) s = p)"

text \<open>\<^verbatim>\<open>s.replace(pat, rep)\<close> with a string pattern: the first occurrence only.\<close>

fun replace :: "string \<Rightarrow> string \<Rightarrow> string \<Rightarrow> string" where
  "replace [] pat rep = (if pat = [] then rep else [])"
| "replace (c # cs) pat rep =
     (if startsWith (c # cs) pat then rep @ drop (length pat) (c # cs)
      else c # replace cs pat rep)"

subsection \<open>The network and the browser\<close>

text \<open>
  What a method does to the outside is appended to a log: the requests it sends (the
  \<^verbatim>\<open>Content-Type\<close> header of a \<^verbatim>\<open>fetch\<close> is left out), the alerts it raises
  and what it writes with \<^verbatim>\<open>console.error\<close> (the fixed label only). An axios
  request names its path below the base URL and, where it has one, its body.
\<close>

datatype effect =
    Fetch string string jsval
  | Axios string string "jsval option"
  | Alert string
  | Console_error string

definition requests :: "effect list \<Rightarrow> effect list" where
  "requests es = filter (\<lambda>e. case e of Fetch u m b \<Rightarrow> True | Axios m u b \<Rightarrow> True | _ \<Rightarrow> False) es"

text \<open>
  An axios call resolves with the response's \<^verbatim>\<open>data\<close> or rejects with an error
  (any status outside 2xx rejects). Of the error the client reads \<^verbatim>\<open>message\<close> and
  \<^verbatim>\<open>response?.data?.detail\<close>, here a string when present.
\<close>

record axios_error =
  message :: string
  detail :: "string option"

datatype 'a axios_result = Resolved 'a | Rejected axios_error

text \<open>\<^verbatim>\<open>error.response?.data?.detail || error.message\<close>\<close>

definition detail_or_message :: "axios_error \<Rightarrow> string" where
  "detail_or_message e = (case detail e of Some d \<Rightarrow> (if d \<noteq> [] then d else message e) | None \<Rightarrow> message e)"

text \<open>
  A \<^verbatim>\<open>fetch\<close> rejects with an error message or resolves with a response, whose body
  reader returns finitely many chunks (already decoded to text) and then either reports
  \<^verbatim>\<open>done\<close> or rejects because the connection dropped.
\<close>

datatype stream_end = Closed | Dropped string

record fetch_response =
  ok :: bool
  http_status :: nat
  chunks :: "string list"
  ending :: stream_end

datatype fetch_result = Fetch_rejected string | Fetch_response fetch_response

text \<open>How a block of statements ends: normally, by \<^verbatim>\<open>return\<close>, or by throwing.\<close>

datatype 's outcome = Next 's | Return 's | Throw string 's

subsection \<open>The component \<^verbatim>\<open>Llmm.vue\<close>\<close>

text \<open>One attempt of the alias bridge for one host, and the whole reply of a bulk create.\<close>

record AliasResult =
  host :: string
  success :: bool
  litellm_model_name :: "string option"
  error_text :: "string option"

record BulkResult =
  successes :: nat
  failures :: nat
  results :: "AliasResult list"

record chat_message =
  role :: string
  content :: string

datatype callback = SendTick | FetchEndpoints

text \<open>
  The component's data, as far as the methods below read or write it, together with the
  base URL of the injected axios instance, the injected \<^verbatim>\<open>refreshState.loading\<close>,
  the browser's table of running interval timers (identifier, callback, period in ms; the
  next identifier to hand out) and the log of effects.
\<close>

record llmm =
  baseURL :: string
  loading :: bool
  endpoints :: jsval
  intervalId :: "nat option"
  tickIntervalId :: "nat option"
  refreshInterval :: nat
  selectedHost :: string
  pullModelName :: string
  pullInProgress :: bool
  pullProgress :: int
  pullStatus :: string
  pullError :: "string option"
  pullComplete :: bool
  chatHistory :: "chat_message list"
  chatInput :: string
  chatLoading :: bool
  selectedModel :: string
  listModels :: jsval
  listModelsLoading :: bool
  deleteConfirmModalActive :: bool
  modelToDelete :: "string option"
  deleteInProgress :: bool
  selectedHosts :: "string list"
  litellmModelName :: string
  litellmOllamaModel :: string
  litellmCreating :: bool
  litellmResults :: "BulkResult option"
  timers :: "(nat \<times> callback \<times> nat) list"
  next_timer :: nat
  effects :: "effect list"

definition emit :: "effect \<Rightarrow> llmm \<Rightarrow> llmm" where
  "emit e st = st\<lparr>effects := effects st @ [e]\<rparr>"

subsubsection \<open>Refreshing the registry snapshot\<close>

text \<open>
  \<^verbatim>\<open>fetchEndpoints()\<close>, given how \<^verbatim>\<open>axios.get('/llmm')\<close> settles. The wait that
  keeps the spinner visible for 200 ms changes no data and is left out.
\<close>

definition fetchEndpoints :: "js_object axios_result \<Rightarrow> llmm \<Rightarrow> llmm" where
  "fetchEndpoints reply st =
     (let st1 = emit (Axios ''GET'' ''/llmm'' None) (st\<lparr>loading := True\<rparr>);
          st2 = (case reply of
                   Resolved data \<Rightarrow> st1\<lparr>endpoints := get_prop data ''endpoints''\<rparr>
                 | Rejected e \<Rightarrow> emit (Console_error ''Error fetching endpoints:'') st1)
      in st2\<lparr>loading := False\<rparr>)"

text \<open>\<^verbatim>\<open>sendTick()\<close>, given how \<^verbatim>\<open>axios.post('/llmm/tick')\<close> settles.\<close>

definition sendTick :: "js_object axios_result \<Rightarrow> llmm \<Rightarrow> llmm" where
  "sendTick reply st =
     (let st1 = emit (Axios ''POST'' ''/llmm/tick'' None) st
      in case reply of
           Resolved data \<Rightarrow> st1
         | Rejected e \<Rightarrow> emit (Console_error ''Error sending tick:'') st1)"

text \<open>
  \<^verbatim>\<open>setInterval\<close> hands out a fresh positive identifier and records the timer;
  \<^verbatim>\<open>clearInterval\<close> removes the timer with the given identifier, if there is one.
\<close>

definition setInterval :: "callback \<Rightarrow> nat \<Rightarrow> llmm \<Rightarrow> nat \<times> llmm" where
  "setInterval cb delay st =
     (let i = max 1 (next_timer st)
      in (i, st\<lparr>timers := timers st @ [(i, cb, delay)], next_timer := Suc i\<rparr>))"

definition clearInterval :: "nat \<Rightarrow> llmm \<Rightarrow> llmm" where
  "clearInterval i st = st\<lparr>timers := filter (\<lambda>(j, cb, delay). j \<noteq> i) (timers st)\<rparr>"

text \<open>\<^verbatim>\<open>if (id) clearInterval(id)\<close>: null and 0 are falsy.\<close>

definition clear_if_set :: "nat option \<Rightarrow> llmm \<Rightarrow> llmm" where
  "clear_if_set i st = (case i of None \<Rightarrow> st | Some j \<Rightarrow> if j \<noteq> 0 then clearInterval j st else st)"

text \<open>
  \<^verbatim>\<open>startRefresh()\<close>. The initial \<^verbatim>\<open>fetchEndpoints()\<close> is not awaited; it
  writes no field that the rest of the method reads, so its settling (\<open>reply\<close>) is
  applied at once.
\<close>

definition startRefresh :: "js_object axios_result \<Rightarrow> llmm \<Rightarrow> llmm" where
  "startRefresh reply st =
     (let st1 = clear_if_set (intervalId st) st;
          st2 = clear_if_set (tickIntervalId st1) st1;
          st3 = fetchEndpoints reply st2
      in if refreshInterval st3 = 1000
         then (let (t, st4) = setInterval SendTick 1000 st3;
                   st5 = st4\<lparr>tickIntervalId := Some t\<rparr>;
                   (i, st6) = setInterval FetchEndpoints 2000 st5
               in st6\<lparr>intervalId := Some i\<rparr>)
         else (let (i, st4) = setInterval FetchEndpoints (refreshInterval st3) st3
               in st4\<lparr>intervalId := Some i\<rparr>))"

text \<open>\<^verbatim>\<open>updateRefreshInterval()\<close>, after the select has stored the chosen interval.\<close>

definition updateRefreshInterval :: "js_object axios_result \<Rightarrow> llmm \<Rightarrow> llmm" where
  "updateRefreshInterval reply st = startRefresh reply st"

text \<open>
  Two cells of the table row of a host record \<^verbatim>\<open>plugin\<close>: whether the status dot has
  the class \<^verbatim>\<open>is-online\<close> (\<^verbatim>\<open>plugin.is_online\<close>), and the text of the address
  cell (\<^verbatim>\<open>plugin.ip || 'N/A'\<close>).
\<close>

definition row_is_online :: "js_object \<Rightarrow> bool" where
  "row_is_online plugin = truthy (get_prop plugin ''is_online'')"

definition row_ip :: "js_object \<Rightarrow> jsval" where
  "row_ip plugin = or_else (get_prop plugin ''ip'') (Str ''N/A'')"

subsubsection \<open>Pulling a model\<close>

text \<open>
  One event of the pull stream, as the client reads it off a parsed line:
  \<^verbatim>\<open>data.status\<close>, \<^verbatim>\<open>data.completed\<close>, \<^verbatim>\<open>data.total\<close> (byte counts) and
  \<^verbatim>\<open>data.error\<close>; \<open>None\<close> is an absent field.
\<close>

record ProgressEvent =
  status :: "string option"
  completed :: "int option"
  total :: "int option"
  error :: "string option"

definition truthy_string :: "string option \<Rightarrow> bool" where
  "truthy_string v = (case v of None \<Rightarrow> False | Some s \<Rightarrow> s \<noteq> [])"

definition truthy_number :: "int option \<Rightarrow> bool" where
  "truthy_number v = (case v of None \<Rightarrow> False | Some n \<Rightarrow> n \<noteq> 0)"

text \<open>
  The body of the \<^verbatim>\<open>for (const line of lines)\<close> loop of \<^verbatim>\<open>startPull\<close> once
  \<^verbatim>\<open>JSON.parse(line)\<close> has returned \<open>data\<close>.
\<close>

definition pull_event :: "ProgressEvent \<Rightarrow> llmm \<Rightarrow> llmm outcome" where
  "pull_event data st =
     (if truthy_string (error data)
      then Return (st\<lparr>pullError := error data, pullInProgress := False\<rparr>)
      else (let st1 = (if truthy_string (status data) then st\<lparr>pullStatus := the (status data)\<rparr> else st);
                st2 = (if truthy_number (completed data) \<and> truthy_number (total data)
                       then st1\<lparr>pullProgress := js_percentage (the (completed data)) (the (total data))\<rparr>
                       else st1);
                st3 = (if status data = Some ''success''
                       then st2\<lparr>pullComplete := True, pullInProgress := False\<rparr>
                       else st2)
            in Next st3))"

text \<open>
  One line: \<open>parse\<close> stands for \<^verbatim>\<open>JSON.parse\<close> followed by the reads of the four
  fields, and is \<open>None\<close> where that throws; the \<^verbatim>\<open>catch\<close> inside the loop logs
  and goes on to the next line.
\<close>

definition pull_line :: "(string \<Rightarrow> ProgressEvent option) \<Rightarrow> string \<Rightarrow> llmm \<Rightarrow> llmm outcome" where
  "pull_line parse line st =
     (case parse line of
        None \<Rightarrow> Next (emit (Console_error ''Error parsing pull progress:'') st)
      | Some data \<Rightarrow> pull_event data st)"

fun pull_lines :: "(string \<Rightarrow> ProgressEvent option) \<Rightarrow> string list \<Rightarrow> llmm \<Rightarrow> llmm outcome" where
  "pull_lines parse [] st = Next st"
| "pull_lines parse (line # lines) st =
     (case pull_line parse line st of
        Next st' \<Rightarrow> pull_lines parse lines st'
      | Return st' \<Rightarrow> Return st'
      | Throw m st' \<Rightarrow> Throw m st')"

text \<open>\<^verbatim>\<open>chunk.split('\n').filter(line => line.trim())\<close> and the loop over it.\<close>

definition pull_chunk_lines :: "string \<Rightarrow> string list" where
  "pull_chunk_lines chunk = filter (\<lambda>line. trim line \<noteq> []) (split_newline chunk)"

definition pull_chunk :: "(string \<Rightarrow> ProgressEvent option) \<Rightarrow> string \<Rightarrow> llmm \<Rightarrow> llmm outcome" where
  "pull_chunk parse chunk st = pull_lines parse (pull_chunk_lines chunk) st"

text \<open>The \<^verbatim>\<open>while (true)\<close> loop over \<^verbatim>\<open>reader.read()\<close>.\<close>

fun pull_read :: "(string \<Rightarrow> ProgressEvent option) \<Rightarrow> string list \<Rightarrow> stream_end \<Rightarrow> llmm \<Rightarrow> llmm outcome" where
  "pull_read parse [] Closed st = Next st"
| "pull_read parse [] (Dropped m) st = Throw m st"
| "pull_read parse (chunk # rest) e st =
     (case pull_chunk parse chunk st of
        Next st' \<Rightarrow> pull_read parse rest e st'
      | Return st' \<Rightarrow> Return st'
      | Throw m st' \<Rightarrow> Throw m st')"

text \<open>The state with which \<^verbatim>\<open>startPull\<close> enters its \<^verbatim>\<open>try\<close> block, the request sent.\<close>

definition pull_url :: "llmm \<Rightarrow> string" where
  "pull_url st = baseURL st @ ''/llmm/'' @ selectedHost st @ ''/pull''"

definition pull_begin :: "llmm \<Rightarrow> llmm" where
  "pull_begin st =
     emit (Fetch (pull_url st) ''POST'' (Obj [(''model_name'', Str (pullModelName st))]))
       (st\<lparr>pullInProgress := True, pullProgress := 0, pullStatus := ''Starting pull...'',
           pullError := None, pullComplete := False\<rparr>)"

definition startPull :: "(string \<Rightarrow> ProgressEvent option) \<Rightarrow> fetch_result \<Rightarrow> llmm \<Rightarrow> llmm" where
  "startPull parse result st =
     (if pullModelName st = [] then st
      else (let st1 = pull_begin st;
                tried =
                  (case result of
                     Fetch_rejected m \<Rightarrow> Throw m st1
                   | Fetch_response response \<Rightarrow>
                       if \<not> ok response
                       then Throw (''HTTP error! status: '' @ string_of_nat (http_status response)) st1
                       else (case pull_read parse (chunks response) (ending response) st1 of
                               Next st2 \<Rightarrow>
                                 Next (if \<not> pullComplete st2
                                       then st2\<lparr>pullComplete := True, pullStatus := ''Pull completed''\<rparr>
                                       else st2)
                             | Return st2 \<Rightarrow> Return st2
                             | Throw m st2 \<Rightarrow> Throw m st2));
                caught =
                  (case tried of
                     Next st3 \<Rightarrow> st3
                   | Return st3 \<Rightarrow> st3
                   | Throw m st3 \<Rightarrow>
                       (emit (Console_error ''Error pulling model:'') st3)
                         \<lparr>pullError := Some (if m \<noteq> [] then m else ''Failed to pull model'')\<rparr>)
            in caught\<lparr>pullInProgress := False\<rparr>))"

subsubsection \<open>Chat\<close>

text \<open>
  One line of the chat stream. \<open>parse\<close> stands for \<^verbatim>\<open>JSON.parse\<close> followed by the
  read of \<^verbatim>\<open>data.choices && data.choices[0]?.delta?.content\<close>: \<open>None\<close> where that
  throws, \<open>Some None\<close> where the value is absent, \<open>Some (Some c)\<close> for the string \<open>c\<close>.
  The accumulator is the assistant message's content and what was logged.
\<close>

definition chat_line :: "(string \<Rightarrow> string option option) \<Rightarrow> string \<Rightarrow> string \<times> effect list \<Rightarrow> string \<times> effect list" where
  "chat_line parse line acc =
     (let jsonStr = replace line ''data: '' []
      in if jsonStr = ''[DONE]'' then acc
         else (case parse jsonStr of
                 None \<Rightarrow> (fst acc, snd acc @ [Console_error ''Error parsing chat response:''])
               | Some data \<Rightarrow>
                   if truthy_string data then (fst acc @ the data, snd acc) else acc))"

text \<open>
  \<^verbatim>\<open>chunk.split('\n').filter(line => line.trim() && line.startsWith('data: '))\<close>,
  the loop over it, and the \<^verbatim>\<open>while (true)\<close> loop over \<^verbatim>\<open>reader.read()\<close>.
\<close>

definition chat_chunk_lines :: "string \<Rightarrow> string list" where
  "chat_chunk_lines chunk =
     filter (\<lambda>line. trim line \<noteq> [] \<and> startsWith line ''data: '') (split_newline chunk)"

definition chat_chunk :: "(string \<Rightarrow> string option option) \<Rightarrow> string \<Rightarrow> string \<times> effect list \<Rightarrow> string \<times> effect list" where
  "chat_chunk parse chunk acc = foldl (\<lambda>a line. chat_line parse line a) acc (chat_chunk_lines chunk)"

definition chat_read :: "(string \<Rightarrow> string option option) \<Rightarrow> string list \<Rightarrow> string \<times> effect list \<Rightarrow> string \<times> effect list" where
  "chat_read parse cs acc = foldl (\<lambda>a chunk. chat_chunk parse chunk a) acc cs"

definition message_json :: "chat_message \<Rightarrow> jsval" where
  "message_json m = Obj [(''role'', Str (role m)), (''content'', Str (content m))]"

definition chat_body :: "chat_message list \<Rightarrow> string \<Rightarrow> jsval" where
  "chat_body history model =
     Obj [(''messages'', Arr (map message_json history)), (''stream'', Bool True), (''model'', Str model)]"

definition chat_failed :: chat_message where
  "chat_failed = \<lparr>role = ''assistant'', content = ''Error: Failed to get response from the model.''\<rparr>"

text \<open>
  What \<^verbatim>\<open>sendMessage\<close> does after the request is sent, on the history that already
  holds the user's message: the new history and what was logged. The assistant message is
  pushed empty and grows in place while the stream is read; a rejected \<^verbatim>\<open>fetch\<close>, a
  response that is not ok and a dropped connection all end in the \<^verbatim>\<open>catch\<close>.
\<close>

definition chat_reply :: "(string \<Rightarrow> string option option) \<Rightarrow> fetch_result \<Rightarrow> chat_message list \<Rightarrow> chat_message list \<times> effect list" where
  "chat_reply parse result history =
     (case result of
        Fetch_rejected m \<Rightarrow> (history @ [chat_failed], [Console_error ''Error sending message:''])
      | Fetch_response response \<Rightarrow>
          if \<not> ok response
          then (history @ [chat_failed], [Console_error ''Error sending message:''])
          else (let (text, logged) = chat_read parse (chunks response) ([], []);
                    assistantMessage = \<lparr>role = ''assistant'', content = text\<rparr>
                in case ending response of
                     Closed \<Rightarrow> (history @ [assistantMessage], logged)
                   | Dropped m \<Rightarrow>
                       (history @ [assistantMessage, chat_failed],
                        logged @ [Console_error ''Error sending message:''])))"

text \<open>\<^verbatim>\<open>sendMessage()\<close> of \<^verbatim>\<open>Llmm.vue\<close>.\<close>

definition sendMessage :: "(string \<Rightarrow> string option option) \<Rightarrow> fetch_result \<Rightarrow> llmm \<Rightarrow> llmm" where
  "sendMessage parse result st =
     (if trim (chatInput st) = [] then st
      else (let userMessage = \<lparr>role = ''user'', content = chatInput st\<rparr>;
                st1 = st\<lparr>chatHistory := chatHistory st @ [userMessage], chatInput := [],
                         chatLoading := True\<rparr>;
                st2 = emit (Fetch (baseURL st1 @ ''/llmm/'' @ selectedHost st1 @ ''/chat'') ''POST''
                             (chat_body (chatHistory st1) (selectedModel st1))) st1;
                (history, logged) = chat_reply parse result (chatHistory st2)
            in st2\<lparr>chatHistory := history, effects := effects st2 @ logged, chatLoading := False\<rparr>))"

subsubsection \<open>Deleting a model\<close>

text \<open>
  \<^verbatim>\<open>deleteModel()\<close>, given how the DELETE request and, if it is sent, the GET that
  refreshes the list settle.
\<close>

definition deleteModel :: "js_object axios_result \<Rightarrow> js_object axios_result \<Rightarrow> llmm \<Rightarrow> llmm" where
  "deleteModel deleted refreshed st =
     (if \<not> truthy_string (modelToDelete st) then st
      else (let st1 = emit (Axios ''DELETE'' (''/llmm/'' @ selectedHost st @ ''/delete'')
                             (Some (Obj [(''model_name'', Str (the (modelToDelete st)))])))
                        (st\<lparr>deleteInProgress := True\<rparr>);
                st2 =
                  (case deleted of
                     Rejected e \<Rightarrow>
                       emit (Alert (''Failed to delete model: '' @ detail_or_message e))
                         (emit (Console_error ''Error deleting model:'') st1)
                   | Resolved data \<Rightarrow>
                       if get_prop data ''status'' = Str ''success''
                       then (let st3 = emit (Axios ''GET'' (''/llmm/'' @ selectedHost st1 @ ''/models'') None)
                                         (st1\<lparr>deleteConfirmModalActive := False, modelToDelete := None,
                                              listModelsLoading := True\<rparr>);
                                 st4 =
                                   (case refreshed of
                                      Resolved d \<Rightarrow> st3\<lparr>listModels := or_else (get_prop d ''models'') (Arr [])\<rparr>
                                    | Rejected e \<Rightarrow> emit (Console_error ''Error refreshing models:'') st3)
                             in st4\<lparr>listModelsLoading := False\<rparr>)
                       else st1)
            in st2\<lparr>deleteInProgress := False\<rparr>))"

subsubsection \<open>Creating aliases in bulk\<close>






subsection \<open>The view \<^verbatim>\<open>ChatView.vue\<close>\<close>

text \<open>
  The full-screen chat has the host as its \<^verbatim>\<open>label\<close> property and keeps its own
  history, input, loading flag and selected model.
\<close>

record chat_view =
  cv_baseURL :: string
  label :: string
  cv_chatHistory :: "chat_message list"
  cv_chatInput :: string
  cv_chatLoading :: bool
  cv_selectedModel :: string
  cv_effects :: "effect list"

text \<open>\<^verbatim>\<open>sendMessage()\<close> of \<^verbatim>\<open>ChatView.vue\<close>.\<close>

definition ChatView_sendMessage :: "(string \<Rightarrow> string option option) \<Rightarrow> fetch_result \<Rightarrow> chat_view \<Rightarrow> chat_view" where
  "ChatView_sendMessage parse result v =
     (if trim (cv_chatInput v) = [] then v
      else (let userMessage = \<lparr>role = ''user'', content = cv_chatInput v\<rparr>;
                v1 = v\<lparr>cv_chatHistory := cv_chatHistory v @ [userMessage], cv_chatInput := [],
                       cv_chatLoading := True\<rparr>;
                v2 = v1\<lparr>cv_effects := cv_effects v1 @
                            [Fetch (cv_baseURL v1 @ ''/llmm/'' @ label v1 @ ''/chat'') ''POST''
                               (chat_body (cv_chatHistory v1) (cv_selectedModel v1))]\<rparr>;
                (history, logged) = chat_reply parse result (cv_chatHistory v2)
            in v2\<lparr>cv_chatHistory := history, cv_effects := cv_effects v2 @ logged,
                  cv_chatLoading := False\<rparr>))"

subsection \<open>The alias bridge behind the bulk-create request\<close>

text \<open>
  Modelled from the spec: the server's \<^verbatim>\<open>bulkCreate(hostLabels, modelName,
  providerModelPath)\<close> is not among the sources. For each host label it attempts one
  alias-creation call on its own (\<open>create\<close>, which answers \<open>None\<close> on success and the
  error otherwise); the alias id for host \<open>h\<close> is \<open>h-modelName\<close>; the result lists one
  outcome per host, in order, with the counts of successes and failures. The client reads
  the alias id of an outcome under the name \<^verbatim>\<open>litellm_model_name\<close>.
\<close>

definition alias_id :: "string \<Rightarrow> string \<Rightarrow> string" where
  "alias_id h modelName = h @ ''-'' @ modelName"

definition create_one :: "(string \<Rightarrow> string \<Rightarrow> string \<Rightarrow> string option) \<Rightarrow> string \<Rightarrow> string \<Rightarrow> string \<Rightarrow> AliasResult" where
  "create_one create modelName providerModelPath h =
     (case create h (alias_id h modelName) providerModelPath of
        None \<Rightarrow> \<lparr>host = h, success = True, litellm_model_name = Some (alias_id h modelName), error_text = None\<rparr>
      | Some e \<Rightarrow> \<lparr>host = h, success = False, litellm_model_name = None, error_text = Some e\<rparr>)"


section \<open>Vocabulary of the properties\<close>

text \<open>The state in which a block of statements ends, however it ends.\<close>

fun state_of :: "'s outcome \<Rightarrow> 's" where
  "state_of (Next s) = s"
| "state_of (Return s) = s"
| "state_of (Throw m s) = s"

text \<open>
  A chunk that carries whole lines: each line is followed by its line feed. An event of
  the chat stream on the wire: a data line followed by an empty line. The lines of a
  list of chat events, each given as its payload and the text it carries.
\<close>

definition whole_lines :: "string list \<Rightarrow> string" where
  "whole_lines ls = concat (map (\<lambda>l. l @ [CHR 0x0A]) ls)"

definition sse_frame :: "string \<Rightarrow> string" where
  "sse_frame payload = ''data: '' @ payload @ [CHR 0x0A, CHR 0x0A]"

definition event_lines :: "(string \<times> string) list \<Rightarrow> string list" where
  "event_lines g = concat (map (\<lambda>(p, c). [''data: '' @ p, []]) g)"

text \<open>The text that one line of the chat stream adds to the assistant message.\<close>

definition delta_text :: "(string \<Rightarrow> string option option) \<Rightarrow> string \<Rightarrow> string" where
  "delta_text parse line =
     (let jsonStr = replace line ''data: '' []
      in if jsonStr = ''[DONE]'' then []
         else (case parse jsonStr of Some (Some c) \<Rightarrow> c | _ \<Rightarrow> []))"

text \<open>A DELETE that resolved with \<^verbatim>\<open>status: 'success'\<close>, and the request itself.\<close>

definition reports_success :: "js_object axios_result \<Rightarrow> bool" where
  "reports_success reply =
     (case reply of Resolved data \<Rightarrow> get_prop data ''status'' = Str ''success'' | Rejected e \<Rightarrow> False)"

definition delete_request :: "llmm \<Rightarrow> effect" where
  "delete_request st =
     Axios ''DELETE'' (''/llmm/'' @ selectedHost st @ ''/delete'')
       (Some (Obj [(''model_name'', Str (the (modelToDelete st)))]))"

text \<open>
  Every running timer was handed out by \<open>setInterval\<close> and is the one that
  \<^verbatim>\<open>intervalId\<close> or \<^verbatim>\<open>tickIntervalId\<close> holds: the component starts timers
  nowhere but in \<^verbatim>\<open>startRefresh\<close>.
\<close>

definition tracked :: "llmm \<Rightarrow> bool" where
  "tracked st =
     list_all (\<lambda>(i, cb, delay). 0 < i \<and> i < next_timer st \<and>
                 (intervalId st = Some i \<or> tickIntervalId st = Some i)) (timers st)"

text \<open>
  The callbacks that are due \<open>t\<close> milliseconds after the timers were started: a timer
  of period \<open>delay\<close> runs at the positive multiples of \<open>delay\<close>.
\<close>

definition due_at :: "nat \<Rightarrow> llmm \<Rightarrow> callback list" where
  "due_at t st =
     map (\<lambda>(i, cb, delay). cb)
       (filter (\<lambda>(i, cb, delay). 0 < t \<and> 0 < delay \<and> t mod delay = 0) (timers st))"

section \<open>Example data\<close>

definition example_models :: "ModelRecord list" where
  "example_models =
     [\<lparr>name = ''llama3:8b'', size_vram = Some 8589934592, expires_at = Some 1700000300000\<rparr>,
      \<lparr>name = ''phi3:mini'', size_vram = None, expires_at = None\<rparr>,
      \<lparr>name = ''qwen2:7b'', size_vram = Some 4294967296, expires_at = Some 1700000900000\<rparr>,
      \<lparr>name = ''gemma:2b'', size_vram = Some 0, expires_at = Some 1700000600000\<rparr>]"

definition example_distance :: "int \<Rightarrow> string" where
  "example_distance t = ''in '' @ string_of_nat (nat (t - 1700000000000) div 60000) @ '' minutes''"

text \<open>The component as \<^verbatim>\<open>data()\<close> creates it, for a host \<open>gpu-1\<close>.\<close>

definition initial :: llmm where
  "initial =
     \<lparr>baseURL = ''http://localhost:8000'', loading = False, endpoints = Null, intervalId = None,
      tickIntervalId = None, refreshInterval = 1000, selectedHost = ''gpu-1'',
      pullModelName = [], pullInProgress = False, pullProgress = 0, pullStatus = [],
      pullError = None, pullComplete = False, chatHistory = [], chatInput = [],
      chatLoading = False, selectedModel = [], listModels = Arr [], listModelsLoading = False,
      deleteConfirmModalActive = False, modelToDelete = None, deleteInProgress = False,
      selectedHosts = [], litellmModelName = [], litellmOllamaModel = [],
      litellmCreating = False, litellmResults = None, timers = [], next_timer = 1,
      effects = []\<rparr>"

text \<open>A snapshot in the shape of the spec, and one as the client reads it.\<close>

definition spec_host :: js_object where
  "spec_host =
     [(''label'', Str ''gpu-1''), (''address'', Str ''192.168.1.1''), (''online'', Bool True),
      (''models'', Arr []), (''lastSeen'', Str ''2025-01-01T00:00:00Z'')]"

definition spec_snapshot :: js_object where
  "spec_snapshot = [(''gpu-1'', Obj spec_host)]"

definition wire_host :: js_object where
  "wire_host =
     [(''version'', Str ''0.5.1''), (''ip'', Str ''192.168.1.1''), (''is_online'', Bool True),
      (''models'', Arr [])]"

definition wire_snapshot :: js_object where
  "wire_snapshot = [(''endpoints'', Obj [(''gpu-1'', Obj wire_host)])]"

text \<open>
  Six lines of a pull stream and what \<^verbatim>\<open>JSON.parse\<close> makes of them; the parser of
  the examples knows these lines only, and so rejects every proper piece of one of them,
  as \<^verbatim>\<open>JSON.parse\<close> rejects truncated JSON. Two of the lines, each followed by its
  line feed and cut in two.
\<close>

definition line_manifest :: string where
  \<open>line_manifest = ''{"status":"pulling manifest"}''\<close>

definition line_downloading :: string where
  \<open>line_downloading = ''{"status":"downloading","completed":50,"total":200}''\<close>

definition line_success :: string where
  \<open>line_success = ''{"status":"success"}''\<close>

definition line_error :: string where
  \<open>line_error = ''{"error":"pull model manifest: file does not exist"}''\<close>

definition line_partial :: string where
  \<open>line_partial = ''{"status":"downloading","completed":29,"total":200}''\<close>

definition line_empty_error :: string where
  \<open>line_empty_error = ''{"error":""}''\<close>



definition split_error_first :: string where
  \<open>split_error_first = ''{"error":"pull model man''\<close>

definition split_error_second :: string where
  \<open>split_error_second = ''ifest: file does not exist"}\<newline>''\<close>

definition example_parse_progress :: "string \<Rightarrow> ProgressEvent option" where
  "example_parse_progress =
     map_of
       [(line_partial,
           \<lparr>status = Some ''downloading'', completed = Some 29, total = Some 200, error = None\<rparr>),
        (line_empty_error,
           \<lparr>status = None, completed = None, total = None, error = Some []\<rparr>),
        (line_manifest,
           \<lparr>status = Some ''pulling manifest'', completed = None, total = None, error = None\<rparr>),
        (line_downloading,
           \<lparr>status = Some ''downloading'', completed = Some 50, total = Some 200, error = None\<rparr>),
        (line_success,
           \<lparr>status = Some ''success'', completed = None, total = None, error = None\<rparr>),
        (line_error,
           \<lparr>status = None, completed = None, total = None,
            error = Some ''pull model manifest: file does not exist''\<rparr>)]"

definition pulling :: llmm where
  "pulling = initial\<lparr>pullModelName := ''llama3''\<rparr>"

text \<open>
  Three payloads of a chat stream and what \<^verbatim>\<open>JSON.parse\<close> and the read of
  \<^verbatim>\<open>choices[0]?.delta?.content\<close> make of them; every other string, and so every
  proper piece of one of the payloads, is rejected as \<^verbatim>\<open>JSON.parse\<close> rejects
  truncated JSON. The event that carries \<open>Hello\<close>, cut in two inside its line. A chunk
  with lines of other kinds around a data line and the sentinel.
\<close>

definition payload_hello :: string where
  \<open>payload_hello = ''{"choices":[{"delta":{"content":"Hello"}}]}''\<close>

definition payload_world :: string where
  \<open>payload_world = ''{"choices":[{"delta":{"content":" world"}}]}''\<close>

definition payload_role :: string where
  \<open>payload_role = ''{"choices":[{"delta":{"role":"assistant"}}]}''\<close>

definition example_parse_delta :: "string \<Rightarrow> string option option" where
  "example_parse_delta =
     map_of [(payload_role, None), (payload_hello, Some ''Hello''), (payload_world, Some '' world'')]"

definition split_first :: string where
  \<open>split_first = ''data: {"choices":[{"delta":{"con''\<close>

definition split_second :: string where
  \<open>split_second = ''tent":"Hello"}}]}\<newline>\<newline>''\<close>

definition mixed_chunk :: string where
  \<open>mixed_chunk = ''event: message\<newline>data: {"choices":[{"delta":{"content":"Hello"}}]}\<newline>: keep-alive\<newline>\<newline>data: [DONE]\<newline>''\<close>

definition chatting :: llmm where
  "chatting = initial\<lparr>chatInput := ''Hi'', selectedModel := ''llama3''\<rparr>"

definition viewing :: chat_view where
  "viewing =
     \<lparr>cv_baseURL = ''http://localhost:8000'', label = ''gpu-1'', cv_chatHistory = [],
      cv_chatInput = ''Hi'', cv_chatLoading = False, cv_selectedModel = ''llama3'',
      cv_effects = []\<rparr>"

text \<open>A pending deletion, and a bulk create over hosts \<open>A\<close> and \<open>B\<close> where \<open>B\<close> fails.\<close>

definition deleting :: llmm where
  "deleting = initial\<lparr>modelToDelete := Some ''llama3:8b'', deleteConfirmModalActive := True,
                     listModels := Arr [Str ''llama3:8b'', Str ''phi3:mini'']\<rparr>"



section \<open>Properties\<close>

subsection \<open>Evaluation of the string and number helpers\<close>

lemma string_of_nat_numeral:
  "string_of_nat (numeral k) =
     (if numeral k < (10::nat) then [digit_char (numeral k)]
      else string_of_nat (numeral k div 10) @ [digit_char (numeral k mod 10)])"
  by (rule string_of_nat.simps)

lemma string_of_nat_0: "string_of_nat 0 = ''0''"
  by (simp add: string_of_nat.simps digit_char_def)

lemma string_of_nat_1: "string_of_nat (Suc 0) = ''1''"
  by (simp add: string_of_nat.simps digit_char_def)

lemma floor_numeral_quotient: "\<lfloor>numeral a / numeral b :: rat\<rfloor> = numeral a div numeral b"
  using floor_divide_of_int_eq [of "numeral a" "numeral b", where ?'a = rat] by simp

lemmas js_eval = toFixed_def Math_round_def Let_def string_of_nat_numeral digit_char_def
  floor_numeral_quotient string_of_nat_0 string_of_nat_1

lemmas normalise_eval =
  normalise.simps [of "numeral a" "numeral b"] normalise.simps [of "numeral a" 1]
  normalise.simps [of 1 "numeral b"] normalise.simps [of 1 1] for a b

lemma js_percentage_examples:
  "js_percentage 50 200 = 25" "js_percentage 29 200 = 14"
  by (simp_all add: js_percentage_def nearest_double_def normalise_eval pow2_def Math_round_def
      floor_numeral_quotient)

subsection \<open>The log of effects\<close>

lemma effects_emit [simp]: "effects (emit e st) = effects st @ [e]"
  by (simp add: emit_def)

lemma emit_fields [simp]:
  "endpoints (emit e st) = endpoints st"
  "loading (emit e st) = loading st"
  "timers (emit e st) = timers st"
  "next_timer (emit e st) = next_timer st"
  "intervalId (emit e st) = intervalId st"
  "tickIntervalId (emit e st) = tickIntervalId st"
  "refreshInterval (emit e st) = refreshInterval st"
  by (simp_all add: emit_def)

lemma requests_append [simp]: "requests (xs @ ys) = requests xs @ requests ys"
  by (simp add: requests_def)

lemma requests_simps [simp]:
  "requests [] = []"
  "requests (Fetch u m b # es) = Fetch u m b # requests es"
  "requests (Axios m u bo # es) = Axios m u bo # requests es"
  "requests (Alert a # es) = requests es"
  "requests (Console_error c # es) = requests es"
  by (simp_all add: requests_def)

subsection \<open>VRAM usage\<close>

lemma size_vram_or_0_eq: "size_vram_or_0 = (\<lambda>m. case size_vram m of None \<Rightarrow> 0 | Some v \<Rightarrow> v)"
  by (rule ext) (simp add: size_vram_or_0_def split: option.split)

lemma foldl_total_vram: "foldl (\<lambda>acc model. acc + size_vram_or_0 model) a ms = a + (\<Sum>m\<leftarrow>ms. size_vram_or_0 m)"
  by (induction ms arbitrary: a) simp_all

lemma getVramClass_cases:
  "(getVramClass models = ''is-danger'') = (calculateVramUsage models > 80)"
  "(getVramClass models = ''is-warning'') = (60 < calculateVramUsage models \<and> calculateVramUsage models \<le> 80)"
  "(getVramClass models = ''is-success'') = (calculateVramUsage models \<le> 60)"
  by (auto simp: getVramClass_def Let_def)

text \<open>
  Claim C9. The VRAM display treats an unknown \<open>size_vram\<close> as 0 and is consistent:
  \<open>calculateVramUsage\<close> is the sum of the models' \<open>size_vram\<close> (an absent one counting
  0) divided by 16 GiB, times 100, and 0 for a null or empty list; \<open>formatVramUsage\<close>
  renders that same percentage to one decimal place (\<open>0%\<close> for a null or empty list); and
  \<open>getVramClass\<close> is \<open>is-danger\<close> exactly above 80, \<open>is-warning\<close> exactly above 60 and up
  to 80, and \<open>is-success\<close> otherwise.
\<close>

theorem vram_display_consistent:
  "calculateVramUsage None = 0 \<and> calculateVramUsage (Some []) = 0
   \<and> calculateVramUsage (Some ms) =
        of_int (\<Sum>m\<leftarrow>ms. case size_vram m of None \<Rightarrow> 0 | Some v \<Rightarrow> v) / (16 * 2 ^ 30) * 100
   \<and> formatVramUsage None = ''0%'' \<and> formatVramUsage (Some []) = ''0%''
   \<and> formatVramUsage (Some ms) =
        (if ms = [] then ''0%'' else toFixed 1 (calculateVramUsage (Some ms)) @ ''%'')
   \<and> (getVramClass models = ''is-danger'') = (calculateVramUsage models > 80)
   \<and> (getVramClass models = ''is-warning'') =
        (60 < calculateVramUsage models \<and> calculateVramUsage models \<le> 80)
   \<and> (getVramClass models = ''is-success'') = (calculateVramUsage models \<le> 60)"
proof -
  have total: "foldl (\<lambda>acc model. acc + size_vram_or_0 model) 0 ms =
      (\<Sum>m\<leftarrow>ms. case size_vram m of None \<Rightarrow> 0 | Some v \<Rightarrow> v)"
    unfolding foldl_total_vram by (simp add: size_vram_or_0_eq)
  have calc: "calculateVramUsage (Some ms) =
        of_int (\<Sum>m\<leftarrow>ms. case size_vram m of None \<Rightarrow> 0 | Some v \<Rightarrow> v) / (16 * 2 ^ 30) * 100"
    by (simp add: calculateVramUsage_def total)
  have fmt: "formatVramUsage (Some ms) =
        (if ms = [] then ''0%'' else toFixed 1 (calculateVramUsage (Some ms)) @ ''%'')"
    by (simp add: formatVramUsage_def calculateVramUsage_def)
  show ?thesis
    using calc fmt getVramClass_cases [of models]
    by (simp add: calculateVramUsage_def formatVramUsage_def)
qed

theorem vram_display_consistent_witness:
  "calculateVramUsage (Some example_models) = 75
   \<and> formatVramUsage (Some example_models) = ''75.0%''
   \<and> getVramClass (Some example_models) = ''is-warning''"
proof -
  note t = vram_display_consistent [of example_models "Some example_models"]
  have u: "calculateVramUsage (Some example_models) = 75"
    using t by (simp add: example_models_def)
  have ne: "example_models \<noteq> []" by (simp add: example_models_def)
  have f: "formatVramUsage (Some example_models) = toFixed 1 75 @ ''%''"
    using t ne u by simp
  have c: "getVramClass (Some example_models) = ''is-warning''"
    using t u by simp
  show ?thesis using u f c
    by (simp add: js_eval)
qed

subsection \<open>Time remaining\<close>

lemma expiries_Nil [simp]: "expiries [] = []"
  by (simp add: expiries_def map_filter_simps)

lemma expiries_Cons [simp]:
  "expiries (m # ms) = (case expires_at m of None \<Rightarrow> expiries ms | Some t \<Rightarrow> t # expiries ms)"
  by (simp add: expiries_def map_filter_simps split: option.split)

lemma set_expiries: "set (expiries ms) = {t. \<exists>m \<in> set ms. expires_at m = Some t}"
  by (induction ms) (auto split: option.splits)

lemma foldl_later_expiry_Some:
  "foldl later_expiry (Some l) ms = Some (Max (set (l # expiries ms)))"
proof (induction ms arbitrary: l)
  case Nil
  show ?case by simp
next
  case (Cons m ms)
  show ?case
  proof (cases "expires_at m")
    case None
    then show ?thesis using Cons.IH [of l] by (simp add: later_expiry_def)
  next
    case (Some t)
    have "Max (insert t (insert l (set (expiries ms)))) = Max (insert (max t l) (set (expiries ms)))"
      by (cases "set (expiries ms) = {}") (simp_all add: max.assoc max.commute)
    then show ?thesis
      using Some Cons.IH [of t] Cons.IH [of l]
      by (auto simp: later_expiry_def max_def insert_commute)
  qed
qed

lemma foldl_later_expiry_None:
  "foldl later_expiry None ms = (if expiries ms = [] then None else Some (Max (set (expiries ms))))"
proof (induction ms)
  case Nil
  show ?case by simp
next
  case (Cons m ms)
  show ?case
  proof (cases "expires_at m")
    case None
    then show ?thesis using Cons.IH by (simp add: later_expiry_def)
  next
    case (Some t)
    then have "later_expiry None m = Some t" by (simp add: later_expiry_def)
    then show ?thesis using Some by (simp add: foldl_later_expiry_Some)
  qed
qed

lemma expiries_empty_iff: "expiries ms = [] \<longleftrightarrow> (\<forall>m \<in> set ms. expires_at m = None)"
  by (induction ms) (auto split: option.splits)

text \<open>
  Claim C10. \<open>formatTimeRemaining\<close> returns \<open>N/A\<close> exactly when the list is null or empty
  or no model in it carries an \<open>expires_at\<close>; otherwise it formats the latest (maximum)
  \<open>expires_at\<close> among the models that carry one. The formatter itself never prints
  \<open>N/A\<close>.
\<close>

theorem formatTimeRemaining_latest:
  assumes "\<And>t. formatDistanceToNow t \<noteq> ''N/A''"
  shows "(formatTimeRemaining formatDistanceToNow models = ''N/A'') =
           (case models of None \<Rightarrow> True
            | Some ms \<Rightarrow> ms = [] \<or> (\<forall>m \<in> set ms. expires_at m = None))
         \<and> (\<forall>ms. models = Some ms \<and> (\<exists>m \<in> set ms. expires_at m \<noteq> None) \<longrightarrow>
               formatTimeRemaining formatDistanceToNow models =
                 formatDistanceToNow (Max {t. \<exists>m \<in> set ms. expires_at m = Some t}))"
proof (cases models)
  case None
  then show ?thesis by (simp add: formatTimeRemaining_def)
next
  case (Some ms)
  show ?thesis
  proof (cases "expiries ms = []")
    case True
    then have "\<forall>m \<in> set ms. expires_at m = None" by (simp add: expiries_empty_iff)
    then show ?thesis using Some True
      by (simp add: formatTimeRemaining_def foldl_later_expiry_None)
  next
    case False
    then have ex: "\<exists>m \<in> set ms. expires_at m \<noteq> None" by (simp add: expiries_empty_iff)
    then have ne: "ms \<noteq> []" by auto
    have "formatTimeRemaining formatDistanceToNow models =
            formatDistanceToNow (Max (set (expiries ms)))"
      using Some False ne by (simp add: formatTimeRemaining_def foldl_later_expiry_None)
    then show ?thesis using Some ex ne assms by (simp add: set_expiries)
  qed
qed

theorem formatTimeRemaining_latest_witness:
  "formatTimeRemaining example_distance (Some example_models) = ''in 15 minutes''
   \<and> formatTimeRemaining example_distance (Some example_models) \<noteq> ''N/A''
   \<and> formatTimeRemaining example_distance (Some [\<lparr>name = ''phi3:mini'', size_vram = None, expires_at = None\<rparr>]) = ''N/A''"
proof -
  have d: "\<And>t. example_distance t \<noteq> ''N/A''" by (simp add: example_distance_def)
  note t = formatTimeRemaining_latest [of example_distance, OF d]
  have ex: "\<exists>m \<in> set example_models. expires_at m \<noteq> None"
    by (simp add: example_models_def)
  have "formatTimeRemaining example_distance (Some example_models) =
          example_distance (Max {t. \<exists>m \<in> set example_models. expires_at m = Some t})"
    using t [of "Some example_models"] ex by blast
  then have "formatTimeRemaining example_distance (Some example_models) =
          example_distance (Max (set (expiries example_models)))"
    unfolding set_expiries [symmetric] .
  then have a: "formatTimeRemaining example_distance (Some example_models) = ''in 15 minutes''"
    by (simp add: example_models_def example_distance_def js_eval)
  have b: "formatTimeRemaining example_distance (Some [\<lparr>name = ''phi3:mini'', size_vram = None, expires_at = None\<rparr>]) = ''N/A''"
    using t [of "Some [\<lparr>name = ''phi3:mini'', size_vram = None, expires_at = None\<rparr>]"] by simp
  show ?thesis using a b by simp
qed

subsection \<open>The registry snapshot\<close>

text \<open>
  Claim C1 as stated says that the body of the GET response is itself the mapping from
  host label to host record, with the fields \<open>address\<close> and \<open>online\<close>. On such a body the
  client finds no \<open>endpoints\<close> field and stores \<open>Undefined\<close>; and of a host record with
  just those fields, online at \<open>192.168.1.1\<close>, the row shows the host as offline and its
  address as \<open>N/A\<close>.
\<close>

theorem snapshot_field_names_counterexample:
  "get_prop spec_snapshot ''gpu-1'' = Obj spec_host
   \<and> endpoints (fetchEndpoints (Resolved spec_snapshot) initial) = Undefined
   \<and> get_prop spec_host ''online'' = Bool True \<and> row_is_online spec_host = False
   \<and> get_prop spec_host ''address'' = Str ''192.168.1.1'' \<and> row_ip spec_host = Str ''N/A''"
  by (simp add: fetchEndpoints_def Let_def spec_snapshot_def spec_host_def get_prop_def
      row_is_online_def row_ip_def or_else_def)

text \<open>
  Claim C1, amended. The client takes the snapshot from the field \<open>endpoints\<close> of the GET
  response body; of a host record it reads the liveness under the name \<open>is_online\<close> and the
  address under the name \<open>ip\<close>: a record without \<open>is_online\<close> is shown as offline and one
  without \<open>ip\<close> with the address \<open>N/A\<close>, whatever other fields it carries.
\<close>

theorem snapshot_read_from_endpoints:
  "endpoints (fetchEndpoints (Resolved data) st) = get_prop data ''endpoints''
   \<and> (map_of plugin ''is_online'' = Some (Bool b) \<longrightarrow> row_is_online plugin = b)
   \<and> (map_of plugin ''is_online'' = None \<longrightarrow> \<not> row_is_online plugin)
   \<and> (map_of plugin ''ip'' = Some (Str a) \<and> a \<noteq> [] \<longrightarrow> row_ip plugin = Str a)
   \<and> (map_of plugin ''ip'' = None \<longrightarrow> row_ip plugin = Str ''N/A'')"
  by (simp add: fetchEndpoints_def Let_def get_prop_def row_is_online_def row_ip_def or_else_def)

theorem snapshot_read_from_endpoints_witness:
  "endpoints (fetchEndpoints (Resolved wire_snapshot) initial) = Obj [(''gpu-1'', Obj wire_host)]
   \<and> row_is_online wire_host \<and> row_ip wire_host = Str ''192.168.1.1''
   \<and> \<not> row_is_online spec_host \<and> row_ip spec_host = Str ''N/A''"
proof -
  note t = snapshot_read_from_endpoints [of wire_snapshot initial wire_host True "''192.168.1.1''"]
  note u = snapshot_read_from_endpoints [of wire_snapshot initial spec_host True "''192.168.1.1''"]
  have p: "get_prop wire_snapshot ''endpoints'' = Obj [(''gpu-1'', Obj wire_host)]"
    by (simp add: wire_snapshot_def get_prop_def)
  have w: "map_of wire_host ''is_online'' = Some (Bool True)"
    "map_of wire_host ''ip'' = Some (Str ''192.168.1.1'')"
    by (simp_all add: wire_host_def)
  have s: "map_of spec_host ''is_online'' = None" "map_of spec_host ''ip'' = None"
    by (simp_all add: spec_host_def)
  show ?thesis using t u p w s by simp
qed

subsection \<open>Ticks and snapshot fetches\<close>

lemma fetchEndpoints_frame [simp]:
  "timers (fetchEndpoints r st) = timers st"
  "next_timer (fetchEndpoints r st) = next_timer st"
  "intervalId (fetchEndpoints r st) = intervalId st"
  "tickIntervalId (fetchEndpoints r st) = tickIntervalId st"
  "refreshInterval (fetchEndpoints r st) = refreshInterval st"
  by (simp_all add: fetchEndpoints_def Let_def split: axios_result.split)

lemma clear_if_set_frame [simp]:
  "next_timer (clear_if_set i st) = next_timer st"
  "intervalId (clear_if_set i st) = intervalId st"
  "tickIntervalId (clear_if_set i st) = tickIntervalId st"
  "refreshInterval (clear_if_set i st) = refreshInterval st"
  by (simp_all add: clear_if_set_def clearInterval_def split: option.split)

lemma timers_clear_if_set:
  "timers (clear_if_set i st) =
     (case i of None \<Rightarrow> timers st
      | Some j \<Rightarrow> if j \<noteq> 0 then filter (\<lambda>(k, cb, delay). k \<noteq> j) (timers st) else timers st)"
  by (simp add: clear_if_set_def clearInterval_def split: option.split)

lemma mem_clear_if_set:
  "x \<in> set (timers (clear_if_set i st)) \<longleftrightarrow>
     x \<in> set (timers st) \<and> (\<forall>j. i = Some j \<and> j \<noteq> 0 \<longrightarrow> fst x \<noteq> j)"
  by (auto simp: timers_clear_if_set split: option.split)

lemma tracked_cleared:
  assumes "tracked st"
  shows "timers (clear_if_set (tickIntervalId st) (clear_if_set (intervalId st) st)) = []"
proof -
  have ids: "\<And>x. x \<in> set (timers st) \<Longrightarrow>
          0 < fst x \<and> (intervalId st = Some (fst x) \<or> tickIntervalId st = Some (fst x))"
    using assms by (auto simp: tracked_def list_all_iff)
  have "x \<notin> set (timers (clear_if_set (tickIntervalId st) (clear_if_set (intervalId st) st)))" for x
    using ids [of x] by (auto simp: mem_clear_if_set)
  then show ?thesis by (metis list.set_intros(1) neq_Nil_conv)
qed

lemma startRefresh_timers:
  assumes "tracked st"
  shows "timers (startRefresh reply st) =
           (if refreshInterval st = 1000
            then [(max 1 (next_timer st), SendTick, 1000), (Suc (max 1 (next_timer st)), FetchEndpoints, 2000)]
            else [(max 1 (next_timer st), FetchEndpoints, refreshInterval st)])"
    and "tickIntervalId (startRefresh reply st) =
           (if refreshInterval st = 1000 then Some (max 1 (next_timer st)) else tickIntervalId st)"
    and "intervalId (startRefresh reply st) =
           (if refreshInterval st = 1000 then Some (Suc (max 1 (next_timer st))) else Some (max 1 (next_timer st)))"
    and "next_timer (startRefresh reply st) =
           (if refreshInterval st = 1000 then Suc (Suc (max 1 (next_timer st))) else Suc (max 1 (next_timer st)))"
  using tracked_cleared [OF assms]
  by (simp_all add: startRefresh_def Let_def setInterval_def)

lemma startRefresh_tracked:
  assumes "tracked st"
  shows "tracked (startRefresh reply st)"
  unfolding tracked_def using startRefresh_timers [OF assms, of reply]
  by (simp add: max_def)

lemma startRefresh_due:
  assumes "tracked st"
  shows "due_at t (startRefresh reply st) =
           (if refreshInterval st = 1000
            then (if 0 < t \<and> t mod 1000 = 0
                  then SendTick # (if t mod 2000 = 0 then [FetchEndpoints] else [])
                  else [])
            else (if 0 < t \<and> 0 < refreshInterval st \<and> t mod refreshInterval st = 0
                  then [FetchEndpoints] else []))"
proof -
  have "t mod 1000 = t mod 2000 mod 1000"
    by (simp add: mod_mod_cancel)
  then have "t mod 2000 = 0 \<Longrightarrow> t mod 1000 = 0"
    by simp
  then show ?thesis
    unfolding due_at_def startRefresh_timers(1) [OF assms] by auto
qed

lemma sendTick_frame:
  "sendTick reply st = st\<lparr>effects := effects (sendTick reply st)\<rparr>"
  by (simp add: sendTick_def Let_def emit_def split: axios_result.split)

lemma sendTick_effects:
  "effects (sendTick reply st) =
     effects st @ Axios ''POST'' ''/llmm/tick'' None #
       (case reply of Resolved data \<Rightarrow> [] | Rejected e \<Rightarrow> [Console_error ''Error sending tick:''])"
  by (simp add: sendTick_def Let_def split: axios_result.split)

lemma fetchEndpoints_endpoints:
  "endpoints (fetchEndpoints reply st) =
     (case reply of Resolved data \<Rightarrow> get_prop data ''endpoints'' | Rejected e \<Rightarrow> endpoints st)"
  by (simp add: fetchEndpoints_def Let_def split: axios_result.split)

lemma fetchEndpoints_requests:
  "requests (effects (fetchEndpoints reply st)) = requests (effects st) @ [Axios ''GET'' ''/llmm'' None]"
  by (simp add: fetchEndpoints_def Let_def requests_def split: axios_result.split)

lemma tracked_initial: "tracked initial"
  by (simp add: tracked_def initial_def)

text \<open>
  Claim C8. From a state whose running timers are the ones the component holds,
  \<open>startRefresh\<close> leaves exactly these timers running: with the refresh interval at
  1000 ms one that calls \<open>sendTick\<close> every 1000 ms and one that calls \<open>fetchEndpoints\<close>
  every 2000 ms; with any other interval a single one that calls \<open>fetchEndpoints\<close> at that
  interval, and none that sends ticks. So a tick is due every second in the first case and
  never in the second. \<open>sendTick\<close> sends the tick request and changes nothing of the
  component but the log, whether the request succeeds or fails; the displayed endpoints
  change only in \<open>fetchEndpoints\<close>, to what its own response carries, and stay as they are
  when that request fails.
\<close>

theorem tick_and_snapshot_separate:
  assumes "tracked st"
  shows "timers (startRefresh reply st) =
           (if refreshInterval st = 1000
            then [(max 1 (next_timer st), SendTick, 1000),
                  (Suc (max 1 (next_timer st)), FetchEndpoints, 2000)]
            else [(max 1 (next_timer st), FetchEndpoints, refreshInterval st)])
         \<and> due_at t (startRefresh reply st) =
           (if refreshInterval st = 1000
            then (if 0 < t \<and> t mod 1000 = 0
                  then SendTick # (if t mod 2000 = 0 then [FetchEndpoints] else [])
                  else [])
            else (if 0 < t \<and> 0 < refreshInterval st \<and> t mod refreshInterval st = 0
                  then [FetchEndpoints] else []))
         \<and> tracked (startRefresh reply st)
         \<and> sendTick tick_reply st = st\<lparr>effects := effects (sendTick tick_reply st)\<rparr>
         \<and> requests (effects (sendTick tick_reply st)) =
             requests (effects st) @ [Axios ''POST'' ''/llmm/tick'' None]
         \<and> endpoints (fetchEndpoints reply st) =
             (case reply of Resolved data \<Rightarrow> get_prop data ''endpoints'' | Rejected e \<Rightarrow> endpoints st)
         \<and> requests (effects (fetchEndpoints reply st)) =
             requests (effects st) @ [Axios ''GET'' ''/llmm'' None]"
proof -
  have r: "requests (effects (sendTick tick_reply st)) =
             requests (effects st) @ [Axios ''POST'' ''/llmm/tick'' None]"
    by (cases tick_reply) (simp_all add: sendTick_effects)
  show ?thesis
    using startRefresh_timers(1) [OF assms, of reply] startRefresh_due [OF assms, of t reply]
      startRefresh_tracked [OF assms, of reply] sendTick_frame [of tick_reply st] r
      fetchEndpoints_endpoints [of reply st] fetchEndpoints_requests [of reply st]
    by (intro conjI)
qed

theorem tick_and_snapshot_separate_witness:
  "timers (startRefresh (Resolved wire_snapshot) initial) =
     [(1, SendTick, 1000), (2, FetchEndpoints, 2000)]
   \<and> due_at 3000 (startRefresh (Resolved wire_snapshot) initial) = [SendTick]
   \<and> due_at 4000 (startRefresh (Resolved wire_snapshot) initial) = [SendTick, FetchEndpoints]
   \<and> timers (startRefresh (Resolved wire_snapshot)
        ((startRefresh (Resolved wire_snapshot) initial)\<lparr>refreshInterval := 5000\<rparr>)) =
     [(3, FetchEndpoints, 5000)]
   \<and> sendTick (Rejected \<lparr>message = ''Network Error'', detail = None\<rparr>) initial =
       initial\<lparr>effects := [Axios ''POST'' ''/llmm/tick'' None, Console_error ''Error sending tick:'']\<rparr>"
proof -
  let ?r = "Resolved wire_snapshot"
  let ?e = "Rejected \<lparr>message = ''Network Error'', detail = None\<rparr>"
  note a = tick_and_snapshot_separate [OF tracked_initial, of ?r _ ?e]
  have t1: "timers (startRefresh ?r initial) = [(1, SendTick, 1000), (2, FetchEndpoints, 2000)]"
    using a [of 0] by (simp add: initial_def)
  have d3: "due_at 3000 (startRefresh ?r initial) = [SendTick]"
    using a [of 3000] by (simp add: initial_def)
  have d4: "due_at 4000 (startRefresh ?r initial) = [SendTick, FetchEndpoints]"
    using a [of 4000] by (simp add: initial_def)
  have tr: "tracked (startRefresh ?r initial)"
    using a [of 0] by simp
  have n1: "next_timer (startRefresh ?r initial) = 3"
    using startRefresh_timers(4) [OF tracked_initial, of ?r] by (simp add: initial_def)
  have tr': "tracked ((startRefresh ?r initial)\<lparr>refreshInterval := 5000\<rparr>)"
    using tr by (simp add: tracked_def)
  note b = tick_and_snapshot_separate [OF tr', of ?r 0 ?e]
  have t2: "timers (startRefresh ?r ((startRefresh ?r initial)\<lparr>refreshInterval := 5000\<rparr>)) =
     [(3, FetchEndpoints, 5000)]"
    using b n1 by simp
  have t3: "sendTick ?e initial =
       initial\<lparr>effects := [Axios ''POST'' ''/llmm/tick'' None, Console_error ''Error sending tick:'']\<rparr>"
    using a [of 0] by (simp add: sendTick_effects) (simp add: initial_def)
  show ?thesis using t1 d3 d4 t2 t3 by simp
qed

subsection \<open>Deleting a model\<close>

lemma deleteModel_failure:
  assumes "truthy_string (modelToDelete st)" "\<not> reports_success deleted"
  shows "deleteModel deleted refreshed st =
           st\<lparr>deleteInProgress := False,
              effects := effects st @ delete_request st #
                (case deleted of
                   Rejected e \<Rightarrow> [Console_error ''Error deleting model:'',
                                  Alert (''Failed to delete model: '' @ detail_or_message e)]
                 | Resolved data \<Rightarrow> [])\<rparr>"
proof (cases deleted)
  case (Resolved data)
  with assms show ?thesis
    by (simp add: deleteModel_def reports_success_def Let_def emit_def delete_request_def)
next
  case (Rejected e)
  with assms show ?thesis
    by (simp add: deleteModel_def Let_def emit_def delete_request_def)
qed

lemma deleteModel_success:
  assumes "truthy_string (modelToDelete st)" "reports_success deleted"
  shows "deleteModel deleted refreshed st =
           st\<lparr>deleteInProgress := False, deleteConfirmModalActive := False, modelToDelete := None,
              listModelsLoading := False,
              listModels := (case refreshed of
                               Resolved d \<Rightarrow> or_else (get_prop d ''models'') (Arr [])
                             | Rejected e \<Rightarrow> listModels st),
              effects := effects st @ delete_request st #
                Axios ''GET'' (''/llmm/'' @ selectedHost st @ ''/models'') None #
                (case refreshed of
                   Resolved d \<Rightarrow> []
                 | Rejected e \<Rightarrow> [Console_error ''Error refreshing models:''])\<rparr>"
proof -
  obtain data where d: "deleted = Resolved data" "get_prop data ''status'' = Str ''success''"
    using assms(2) by (cases deleted) (simp_all add: reports_success_def)
  show ?thesis
  proof (cases refreshed)
    case (Resolved dd)
    with assms(1) d show ?thesis
      by (simp add: deleteModel_def Let_def emit_def delete_request_def)
  next
    case (Rejected e)
    with assms(1) d show ?thesis
      by (simp add: deleteModel_def Let_def emit_def delete_request_def)
  qed
qed

text \<open>
  Claim C7 as stated says that on any error response the server's error detail is
  surfaced, and that the displayed list is refreshed whenever the response reports
  success. A DELETE that resolves with a body whose status is not \<open>success\<close> (here with
  status \<open>error\<close> and a detail) raises no alert and logs nothing: the only effect is the
  request itself. And after a DELETE that reports success, a GET that fails leaves the
  displayed list as it was, the deleted model still in it, while the dialog is closed and
  the pending model cleared.
\<close>

theorem deleteModel_silent_counterexample:
  "deleteModel (Resolved [(''status'', Str ''error''), (''detail'', Str ''model is in use'')])
       (Resolved [(''models'', Arr [Str ''phi3:mini''])]) deleting =
     deleting\<lparr>effects := [Axios ''DELETE'' ''/llmm/gpu-1/delete''
                            (Some (Obj [(''model_name'', Str ''llama3:8b'')]))]\<rparr>
   \<and> deleteModel (Resolved [(''status'', Str ''success'')])
       (Rejected \<lparr>message = ''Network Error'', detail = None\<rparr>) deleting =
     deleting\<lparr>modelToDelete := None, deleteConfirmModalActive := False,
              effects := [Axios ''DELETE'' ''/llmm/gpu-1/delete''
                            (Some (Obj [(''model_name'', Str ''llama3:8b'')])),
                          Axios ''GET'' ''/llmm/gpu-1/models'' None,
                          Console_error ''Error refreshing models:'']\<rparr>
   \<and> listModels (deleteModel (Resolved [(''status'', Str ''success'')])
       (Rejected \<lparr>message = ''Network Error'', detail = None\<rparr>) deleting) =
     Arr [Str ''llama3:8b'', Str ''phi3:mini'']"
  by (simp add: deleteModel_def Let_def emit_def truthy_string_def get_prop_def deleting_def
      initial_def)

text \<open>
  Claim C7, amended. With a model pending and the confirmation dialog open, \<open>deleteModel\<close>
  sends a DELETE whose body is \<open>{model_name}\<close>. The dialog is closed exactly when the
  request resolves with a body whose status is \<open>success\<close>, and so is the pending model
  cleared; the list is then fetched again, and replaced by the models of that response
  when the GET resolves, kept when it fails. In every other case the pending model, the
  open dialog and the displayed list are unchanged: when the DELETE request was rejected
  the user is alerted with the server's error detail (the error's message when there is
  no detail), and when it resolved with another status nothing is shown.
\<close>

theorem deleteModel_outcomes:
  assumes "modelToDelete st = Some m" and "m \<noteq> []" and "deleteConfirmModalActive st"
  shows "deleteModel deleted refreshed st =
           (case deleted of
              Resolved data \<Rightarrow>
                if get_prop data ''status'' = Str ''success''
                then st\<lparr>deleteInProgress := False, deleteConfirmModalActive := False,
                        modelToDelete := None, listModelsLoading := False,
                        listModels :=
                          (case refreshed of
                             Resolved d \<Rightarrow> or_else (get_prop d ''models'') (Arr [])
                           | Rejected e \<Rightarrow> listModels st),
                        effects := effects st @
                          Axios ''DELETE'' (''/llmm/'' @ selectedHost st @ ''/delete'')
                            (Some (Obj [(''model_name'', Str m)])) #
                          Axios ''GET'' (''/llmm/'' @ selectedHost st @ ''/models'') None #
                          (case refreshed of
                             Resolved d \<Rightarrow> []
                           | Rejected e \<Rightarrow> [Console_error ''Error refreshing models:''])\<rparr>
                else st\<lparr>deleteInProgress := False,
                        effects := effects st @
                          [Axios ''DELETE'' (''/llmm/'' @ selectedHost st @ ''/delete'')
                             (Some (Obj [(''model_name'', Str m)]))]\<rparr>
            | Rejected e \<Rightarrow>
                st\<lparr>deleteInProgress := False,
                   effects := effects st @
                     [Axios ''DELETE'' (''/llmm/'' @ selectedHost st @ ''/delete'')
                        (Some (Obj [(''model_name'', Str m)])),
                      Console_error ''Error deleting model:'',
                      Alert (''Failed to delete model: '' @
                             (case detail e of
                                Some d \<Rightarrow> if d \<noteq> [] then d else message e
                              | None \<Rightarrow> message e))]\<rparr>)
         \<and> (\<not> deleteConfirmModalActive (deleteModel deleted refreshed st)) = reports_success deleted
         \<and> (modelToDelete (deleteModel deleted refreshed st) = None) = reports_success deleted
         \<and> (\<not> reports_success deleted \<longrightarrow>
               modelToDelete (deleteModel deleted refreshed st) = Some m
             \<and> deleteConfirmModalActive (deleteModel deleted refreshed st)
             \<and> listModels (deleteModel deleted refreshed st) = listModels st)"
proof -
  have t: "truthy_string (modelToDelete st)"
    using assms by (simp add: truthy_string_def)
  show ?thesis
  proof (cases "reports_success deleted")
    case True
    then obtain data where d: "deleted = Resolved data" "get_prop data ''status'' = Str ''success''"
      by (cases deleted) (simp_all add: reports_success_def)
    show ?thesis
      unfolding deleteModel_success [OF t True, of refreshed]
      using True assms(1) d
      by (cases refreshed) (simp_all add: delete_request_def)
  next
    case False
    show ?thesis
      unfolding deleteModel_failure [OF t False, of refreshed]
      using False assms
      by (cases deleted) (simp_all add: delete_request_def detail_or_message_def reports_success_def)
  qed
qed

theorem deleteModel_outcomes_witness:
  "deleteModel (Resolved [(''status'', Str ''success'')])
       (Resolved [(''models'', Arr [Str ''phi3:mini''])]) deleting =
     deleting\<lparr>modelToDelete := None, deleteConfirmModalActive := False,
              listModels := Arr [Str ''phi3:mini''],
              effects := [Axios ''DELETE'' ''/llmm/gpu-1/delete''
                            (Some (Obj [(''model_name'', Str ''llama3:8b'')])),
                          Axios ''GET'' ''/llmm/gpu-1/models'' None]\<rparr>
   \<and> deleteModel (Rejected \<lparr>message = ''Request failed with status code 500'',
                            detail = Some ''model is in use''\<rparr>)
       (Resolved [(''models'', Arr [Str ''phi3:mini''])]) deleting =
     deleting\<lparr>effects := [Axios ''DELETE'' ''/llmm/gpu-1/delete''
                            (Some (Obj [(''model_name'', Str ''llama3:8b'')])),
                          Console_error ''Error deleting model:'',
                          Alert ''Failed to delete model: model is in use'']\<rparr>
   \<and> deleteModel (Rejected \<lparr>message = ''Network Error'', detail = None\<rparr>)
       (Resolved [(''models'', Arr [Str ''phi3:mini''])]) deleting =
     deleting\<lparr>effects := [Axios ''DELETE'' ''/llmm/gpu-1/delete''
                            (Some (Obj [(''model_name'', Str ''llama3:8b'')])),
                          Console_error ''Error deleting model:'',
                          Alert ''Failed to delete model: Network Error'']\<rparr>
   \<and> deleteModel (Resolved [(''status'', Str ''error'')])
       (Resolved [(''models'', Arr [Str ''phi3:mini''])]) deleting =
     deleting\<lparr>effects := [Axios ''DELETE'' ''/llmm/gpu-1/delete''
                            (Some (Obj [(''model_name'', Str ''llama3:8b'')]))]\<rparr>"
proof -
  have m: "modelToDelete deleting = Some ''llama3:8b''" "''llama3:8b'' \<noteq> []"
    "deleteConfirmModalActive deleting"
    by (simp_all add: deleting_def)
  let ?ok = "Resolved [(''status'', Str ''success'')] :: js_object axios_result"
  let ?bad = "Rejected \<lparr>message = ''Request failed with status code 500'',
                            detail = Some ''model is in use''\<rparr> :: js_object axios_result"
  let ?net = "Rejected \<lparr>message = ''Network Error'', detail = None\<rparr> :: js_object axios_result"
  let ?err = "Resolved [(''status'', Str ''error'')] :: js_object axios_result"
  let ?ref = "Resolved [(''models'', Arr [Str ''phi3:mini''])] :: js_object axios_result"
  have a: "deleteModel ?ok ?ref deleting =
     deleting\<lparr>modelToDelete := None, deleteConfirmModalActive := False,
              listModels := Arr [Str ''phi3:mini''],
              effects := [Axios ''DELETE'' ''/llmm/gpu-1/delete''
                            (Some (Obj [(''model_name'', Str ''llama3:8b'')])),
                          Axios ''GET'' ''/llmm/gpu-1/models'' None]\<rparr>"
    unfolding deleteModel_outcomes [OF m, of ?ok ?ref, THEN conjunct1]
    by (simp add: deleting_def initial_def get_prop_def or_else_def)
  have b: "deleteModel ?bad ?ref deleting =
     deleting\<lparr>effects := [Axios ''DELETE'' ''/llmm/gpu-1/delete''
                            (Some (Obj [(''model_name'', Str ''llama3:8b'')])),
                          Console_error ''Error deleting model:'',
                          Alert ''Failed to delete model: model is in use'']\<rparr>"
    unfolding deleteModel_outcomes [OF m, of ?bad ?ref, THEN conjunct1]
    by (simp add: deleting_def initial_def)
  have c: "deleteModel ?net ?ref deleting =
     deleting\<lparr>effects := [Axios ''DELETE'' ''/llmm/gpu-1/delete''
                            (Some (Obj [(''model_name'', Str ''llama3:8b'')])),
                          Console_error ''Error deleting model:'',
                          Alert ''Failed to delete model: Network Error'']\<rparr>"
    unfolding deleteModel_outcomes [OF m, of ?net ?ref, THEN conjunct1]
    by (simp add: deleting_def initial_def)
  have d: "deleteModel ?err ?ref deleting =
     deleting\<lparr>effects := [Axios ''DELETE'' ''/llmm/gpu-1/delete''
                            (Some (Obj [(''model_name'', Str ''llama3:8b'')]))]\<rparr>"
    unfolding deleteModel_outcomes [OF m, of ?err ?ref, THEN conjunct1]
    by (simp add: deleting_def initial_def get_prop_def)
  show ?thesis using a b c d by simp
qed

subsection \<open>Creating aliases in bulk\<close>



lemma host_create_one [simp]: "host (create_one create modelName path h) = h"
  by (simp add: create_one_def split: option.split)

lemma success_create_one [simp]:
  "success (create_one create modelName path h) = (create h (h @ ''-'' @ modelName) path = None)"
  by (simp add: create_one_def alias_id_def split: option.split)




subsection \<open>Lines of a chunk\<close>

lemma split_newline_not_Nil [simp]: "split_newline s \<noteq> []"
  by (induction s) (auto split: list.split)

lemma split_newline_line:
  "CHR 0x0A \<notin> set l \<Longrightarrow> split_newline (l @ CHR 0x0A # rest) = l # split_newline rest"
  by (induction l) (auto split: list.split)

lemma split_newline_whole_lines:
  "\<forall>l \<in> set ls. CHR 0x0A \<notin> set l \<Longrightarrow> split_newline (whole_lines ls) = ls @ [[]]"
  by (induction ls) (simp_all add: whole_lines_def split_newline_line)

lemma trim_Nil [simp]: "trim [] = []"
  by (simp add: trim_def)

lemma startsWith_Nil [simp]: "startsWith [] (c # p) = False"
  by (simp add: startsWith_def)

lemma replace_prefix: "startsWith l p \<Longrightarrow> replace l p [] = drop (length p) l"
  by (cases l) (auto simp: startsWith_def)

lemma trim_data_line: "startsWith l ''data: '' \<Longrightarrow> trim l \<noteq> []"
proof -
  assume "startsWith l ''data: ''"
  then obtain r where l: "l = ''data: '' @ r"
    by (metis append_take_drop_id startsWith_def)
  have "dropWhile js_whitespace l = l"
    by (simp add: l js_whitespace_def)
  moreover have "\<not> js_whitespace CHR ''d''" by (simp add: js_whitespace_def)
  then have "dropWhile js_whitespace (rev l) \<noteq> []"
    by (auto simp: l dropWhile_eq_Nil_conv)
  ultimately show ?thesis by (simp add: trim_def)
qed

lemma chat_chunk_lines_data:
  "chat_chunk_lines chunk = filter (\<lambda>line. startsWith line ''data: '') (split_newline chunk)"
  unfolding chat_chunk_lines_def by (rule filter_cong) (auto dest: trim_data_line)

lemma pull_chunk_lines_whole_lines:
  assumes "\<forall>l \<in> set ls. CHR 0x0A \<notin> set l"
  shows "pull_chunk_lines (whole_lines ls) = filter (\<lambda>l. trim l \<noteq> []) ls"
  by (simp add: pull_chunk_lines_def split_newline_whole_lines [OF assms])

lemma chat_chunk_lines_whole_lines:
  assumes "\<forall>l \<in> set ls. CHR 0x0A \<notin> set l"
  shows "chat_chunk_lines (whole_lines ls) = filter (\<lambda>line. startsWith line ''data: '') ls"
  by (simp add: chat_chunk_lines_data split_newline_whole_lines [OF assms])

subsection \<open>The pull stream\<close>

lemma pull_event_error:
  "truthy_string (error data) \<Longrightarrow>
     pull_event data st = Return (st\<lparr>pullError := error data, pullInProgress := False\<rparr>)"
  by (simp add: pull_event_def)

lemma pull_event_progress:
  "\<not> truthy_string (error data) \<Longrightarrow>
     pull_event data st =
       Next (st\<lparr>pullStatus := (if truthy_string (status data) then the (status data) else pullStatus st),
                pullProgress :=
                  (if truthy_number (completed data) \<and> truthy_number (total data)
                   then js_percentage (the (completed data)) (the (total data))
                   else pullProgress st),
                pullComplete := (status data = Some ''success'' \<or> pullComplete st),
                pullInProgress := (status data \<noteq> Some ''success'' \<and> pullInProgress st)\<rparr>)"
  by (simp add: pull_event_def Let_def)

lemma pull_line_not_Throw: "pull_line parse line st \<noteq> Throw m s"
  by (simp add: pull_line_def pull_event_def Let_def split: option.split)

lemma pull_lines_not_Throw: "pull_lines parse ls st \<noteq> Throw m s"
proof (induction ls arbitrary: st)
  case Nil
  show ?case by simp
next
  case (Cons l ls)
  show ?case
    using Cons.IH pull_line_not_Throw [of parse l st]
    by (cases "pull_line parse l st") simp_all
qed

lemma pull_lines_append:
  "pull_lines parse (xs @ ys) st =
     (case pull_lines parse xs st of
        Next s \<Rightarrow> pull_lines parse ys s
      | Return s \<Rightarrow> Return s
      | Throw m s \<Rightarrow> Throw m s)"
  by (induction xs arbitrary: st) (simp_all split: outcome.split)

lemma pull_read_lines:
  "pull_read parse cs fin st =
     (case pull_lines parse (concat (map pull_chunk_lines cs)) st of
        Next s \<Rightarrow> pull_read parse [] fin s
      | Return s \<Rightarrow> Return s
      | Throw m s \<Rightarrow> Throw m s)"
proof (induction cs arbitrary: st)
  case Nil
  show ?case by simp
next
  case (Cons c cs)
  show ?case
    by (simp add: pull_chunk_def pull_lines_append Cons.IH split: outcome.split)
qed

lemma pull_line_requests:
  "requests (effects (state_of (pull_line parse line st))) = requests (effects st)"
  by (simp add: pull_line_def pull_event_def Let_def split: option.split)

lemma pull_lines_requests:
  "requests (effects (state_of (pull_lines parse ls st))) = requests (effects st)"
proof (induction ls arbitrary: st)
  case Nil
  show ?case by simp
next
  case (Cons l ls)
  show ?case
    using Cons.IH [of "state_of (pull_line parse l st)"] pull_line_requests [of parse l st]
    by (cases "pull_line parse l st") simp_all
qed



lemma pull_begin_requests:
  "requests (effects (pull_begin st)) =
     requests (effects st) @
       [Fetch (baseURL st @ ''/llmm/'' @ selectedHost st @ ''/pull'') ''POST''
          (Obj [(''model_name'', Str (pullModelName st))])]"
  by (simp add: pull_begin_def pull_url_def)


lemma pull_line_complete:
  assumes "pull_line parse l st = Next s"
  shows "pullComplete s = (pullComplete st \<or> (\<exists>d. parse l = Some d \<and> status d = Some ''success''))"
proof (cases "parse l")
  case None
  with assms show ?thesis by (auto simp: pull_line_def emit_def)
next
  case (Some d)
  with assms have ev: "pull_event d st = Next s"
    by (simp add: pull_line_def)
  show ?thesis
  proof (cases "truthy_string (error d)")
    case True
    with ev show ?thesis by (simp add: pull_event_error)
  next
    case False
    with ev Some show ?thesis by (auto simp: pull_event_progress)
  qed
qed

lemma pull_lines_complete:
  assumes "pull_lines parse ls st = Next s"
  shows "pullComplete s =
           (pullComplete st \<or> (\<exists>l \<in> set ls. \<exists>d. parse l = Some d \<and> status d = Some ''success''))"
  using assms
proof (induction ls arbitrary: st)
  case Nil
  then show ?case by simp
next
  case (Cons l ls)
  from Cons.prems obtain s1 where s1: "pull_line parse l st = Next s1"
    and rest: "pull_lines parse ls s1 = Next s"
    by (cases "pull_line parse l st") simp_all
  show ?case
    using Cons.IH [OF rest] pull_line_complete [OF s1] by auto
qed

lemma pullComplete_pull_begin [simp]: "pullComplete (pull_begin st) = False"
  by (simp add: pull_begin_def emit_def)

lemma pull_lines_Next_requests:
  "pull_lines parse ls st = Next s \<Longrightarrow> requests (effects s) = requests (effects st)"
  using pull_lines_requests [of parse ls st] by simp

lemma pulling_props:
  "pullModelName pulling = ''llama3''" "baseURL pulling = ''http://localhost:8000''"
  "selectedHost pulling = ''gpu-1''" "effects pulling = []"
  by (simp_all add: pulling_def initial_def)

lemma example_lines_newline_free:
  "CHR 0x0A \<notin> set line_manifest" "CHR 0x0A \<notin> set line_downloading"
  "CHR 0x0A \<notin> set line_success" "CHR 0x0A \<notin> set line_error"
  "CHR 0x0A \<notin> set line_partial" "CHR 0x0A \<notin> set line_empty_error"
  by (simp_all add: line_manifest_def line_downloading_def line_success_def line_error_def
      line_partial_def line_empty_error_def)

lemma example_lines_not_blank:
  "trim line_manifest \<noteq> []" "trim line_downloading \<noteq> []"
  "trim line_success \<noteq> []" "trim line_error \<noteq> []"
  "trim line_partial \<noteq> []" "trim line_empty_error \<noteq> []"
  by (simp_all add: line_manifest_def line_downloading_def line_success_def line_error_def
      line_partial_def line_empty_error_def trim_def js_whitespace_def)

lemma example_parse_progress_simps:
  "example_parse_progress line_manifest =
     Some \<lparr>status = Some ''pulling manifest'', completed = None, total = None, error = None\<rparr>"
  "example_parse_progress line_downloading =
     Some \<lparr>status = Some ''downloading'', completed = Some 50, total = Some 200, error = None\<rparr>"
  "example_parse_progress line_success =
     Some \<lparr>status = Some ''success'', completed = None, total = None, error = None\<rparr>"
  "example_parse_progress line_error =
     Some \<lparr>status = None, completed = None, total = None,
           error = Some ''pull model manifest: file does not exist''\<rparr>"
  "example_parse_progress line_partial =
     Some \<lparr>status = Some ''downloading'', completed = Some 29, total = Some 200, error = None\<rparr>"
  "example_parse_progress line_empty_error =
     Some \<lparr>status = None, completed = None, total = None, error = Some []\<rparr>"
  by (simp_all add: example_parse_progress_def line_manifest_def line_downloading_def
      line_success_def line_error_def line_partial_def line_empty_error_def)

lemma read_lines_whole_lines:
  assumes "\<forall>l \<in> set (concat groups). CHR 0x0A \<notin> set l"
  shows "concat (map pull_chunk_lines (map whole_lines groups)) =
           filter (\<lambda>line. trim line \<noteq> []) (concat groups)"
  using assms by (induction groups) (simp_all add: pull_chunk_lines_whole_lines)

lemma startPull_ok:
  assumes "pullModelName st \<noteq> []"
  shows "startPull parse
           (Fetch_response \<lparr>ok = True, http_status = code, chunks = cs, ending = fin\<rparr>) st =
           (case pull_lines parse (concat (map pull_chunk_lines cs)) (pull_begin st) of
              Next s \<Rightarrow>
                (case fin of
                   Closed \<Rightarrow>
                     (if pullComplete s then s
                      else s\<lparr>pullComplete := True, pullStatus := ''Pull completed''\<rparr>)
                       \<lparr>pullInProgress := False\<rparr>
                 | Dropped m \<Rightarrow>
                     s\<lparr>effects := effects s @ [Console_error ''Error pulling model:''],
                       pullError := Some (if m \<noteq> [] then m else ''Failed to pull model''),
                       pullInProgress := False\<rparr>)
            | Return s \<Rightarrow> s\<lparr>pullInProgress := False\<rparr>
            | Throw m s \<Rightarrow>
                s\<lparr>effects := effects s @ [Console_error ''Error pulling model:''],
                  pullError := Some (if m \<noteq> [] then m else ''Failed to pull model''),
                  pullInProgress := False\<rparr>)"
proof (cases "pull_lines parse (concat (map pull_chunk_lines cs)) (pull_begin st)")
  case (Next s)
  then show ?thesis
    using assms
    by (cases fin) (simp_all add: startPull_def Let_def emit_def pull_read_lines [of parse cs])
next
  case (Return s)
  then show ?thesis
    using assms by (simp add: startPull_def Let_def pull_read_lines [of parse cs])
next
  case (Throw m s)
  then show ?thesis
    using assms by (simp add: startPull_def Let_def emit_def pull_read_lines [of parse cs])
qed

lemma pull_error_line_returns:
  assumes "pullModelName st \<noteq> []"
    and "concat (map pull_chunk_lines cs) = pre @ line # post"
    and "pull_lines parse pre (pull_begin st) = Next s"
    and "parse line = Some data" and "error data = Some e" and "e \<noteq> []"
  shows "startPull parse
           (Fetch_response \<lparr>ok = True, http_status = code, chunks = cs, ending = fin\<rparr>) st =
           s\<lparr>pullError := Some e, pullInProgress := False\<rparr>"
proof -
  have ev: "pull_event data s = Return (s\<lparr>pullError := Some e, pullInProgress := False\<rparr>)"
    using assms(5,6) pull_event_error [of data s] by (simp add: truthy_string_def)
  have "pull_lines parse (concat (map pull_chunk_lines cs)) (pull_begin st) =
          Return (s\<lparr>pullError := Some e, pullInProgress := False\<rparr>)"
    using assms(2,3,4) ev by (simp add: pull_lines_append pull_line_def)
  then show ?thesis
    unfolding startPull_ok [OF assms(1)] by simp
qed

lemmas pull_eval = pull_line_def pull_event_def truthy_string_def truthy_number_def Let_def
  emit_def example_parse_progress_simps js_percentage_examples




text \<open>
  Claim C3 as stated holds for every stream that yields an error event, and says that the
  pull is then not marked complete. When the error line is cut by the end of a read,
  neither piece parses: no error is displayed, the stream is read to its end and the pull
  is marked complete. When an event with status \<open>success\<close> precedes the error event, the
  pull ends with the error displayed and marked complete. And an event whose error is the
  empty string stops nothing: the client tests \<^verbatim>\<open>data.error\<close> for truth.
\<close>

theorem pull_error_event_counterexample:
  "split_error_first @ split_error_second = whole_lines [line_error]
   \<and> startPull example_parse_progress
       (Fetch_response \<lparr>ok = True, http_status = 200,
          chunks = [whole_lines [line_manifest], split_error_first, split_error_second],
          ending = Closed\<rparr>) pulling =
     pulling\<lparr>pullStatus := ''Pull completed'', pullError := None, pullComplete := True,
             effects := [Fetch ''http://localhost:8000/llmm/gpu-1/pull'' ''POST''
                           (Obj [(''model_name'', Str ''llama3'')]),
                         Console_error ''Error parsing pull progress:'',
                         Console_error ''Error parsing pull progress:'']\<rparr>
   \<and> startPull example_parse_progress
       (Fetch_response \<lparr>ok = True, http_status = 200,
          chunks = [whole_lines [line_success, line_error]], ending = Closed\<rparr>) pulling =
     pulling\<lparr>pullStatus := ''success'', pullComplete := True,
             pullError := Some ''pull model manifest: file does not exist'',
             effects := [Fetch ''http://localhost:8000/llmm/gpu-1/pull'' ''POST''
                           (Obj [(''model_name'', Str ''llama3'')])]\<rparr>
   \<and> startPull example_parse_progress
       (Fetch_response \<lparr>ok = True, http_status = 200,
          chunks = [whole_lines [line_empty_error, line_manifest]], ending = Closed\<rparr>) pulling =
     pulling\<lparr>pullStatus := ''Pull completed'', pullError := None, pullComplete := True,
             effects := [Fetch ''http://localhost:8000/llmm/gpu-1/pull'' ''POST''
                           (Obj [(''model_name'', Str ''llama3'')])]\<rparr>"
proof -
  have ne: "pullModelName pulling \<noteq> []" by (simp add: pulling_props)
  have j: "split_error_first @ split_error_second = whole_lines [line_error]"
    by (simp add: split_error_first_def split_error_second_def whole_lines_def line_error_def)
  have l0: "pull_chunk_lines (whole_lines [line_manifest]) = [line_manifest]"
    "pull_chunk_lines (whole_lines [line_success, line_error]) = [line_success, line_error]"
    "pull_chunk_lines (whole_lines [line_empty_error, line_manifest]) = [line_empty_error, line_manifest]"
    by (simp_all add: pull_chunk_lines_whole_lines example_lines_newline_free example_lines_not_blank)
  have l2: "pull_chunk_lines split_error_first = [split_error_first]"
    "pull_chunk_lines split_error_second = [butlast split_error_second]"
    by (simp_all add: pull_chunk_lines_def split_error_first_def split_error_second_def
        trim_def js_whitespace_def)
  have p: "example_parse_progress split_error_first = None"
    "example_parse_progress (butlast split_error_second) = None"
    by (simp_all add: example_parse_progress_def split_error_first_def
        split_error_second_def line_manifest_def line_downloading_def line_success_def
        line_error_def line_partial_def line_empty_error_def)
  have a: "startPull example_parse_progress
       (Fetch_response \<lparr>ok = True, http_status = 200,
          chunks = [whole_lines [line_manifest], split_error_first, split_error_second],
          ending = Closed\<rparr>) pulling =
     pulling\<lparr>pullStatus := ''Pull completed'', pullError := None, pullComplete := True,
             effects := [Fetch ''http://localhost:8000/llmm/gpu-1/pull'' ''POST''
                           (Obj [(''model_name'', Str ''llama3'')]),
                         Console_error ''Error parsing pull progress:'',
                         Console_error ''Error parsing pull progress:'']\<rparr>"
    unfolding startPull_ok [OF ne]
    by (simp add: l0 l2 p pull_eval) (simp add: pull_begin_def pull_url_def emit_def pulling_def initial_def)
  have b: "startPull example_parse_progress
       (Fetch_response \<lparr>ok = True, http_status = 200,
          chunks = [whole_lines [line_success, line_error]], ending = Closed\<rparr>) pulling =
     pulling\<lparr>pullStatus := ''success'', pullComplete := True,
             pullError := Some ''pull model manifest: file does not exist'',
             effects := [Fetch ''http://localhost:8000/llmm/gpu-1/pull'' ''POST''
                           (Obj [(''model_name'', Str ''llama3'')])]\<rparr>"
    unfolding startPull_ok [OF ne]
    by (simp add: l0 pull_eval) (simp add: pull_begin_def pull_url_def emit_def pulling_def initial_def)
  have c: "startPull example_parse_progress
       (Fetch_response \<lparr>ok = True, http_status = 200,
          chunks = [whole_lines [line_empty_error, line_manifest]], ending = Closed\<rparr>) pulling =
     pulling\<lparr>pullStatus := ''Pull completed'', pullError := None, pullComplete := True,
             effects := [Fetch ''http://localhost:8000/llmm/gpu-1/pull'' ''POST''
                           (Obj [(''model_name'', Str ''llama3'')])]\<rparr>"
    unfolding startPull_ok [OF ne]
    by (simp add: l0 pull_eval) (simp add: pull_begin_def pull_url_def emit_def pulling_def initial_def)
  show ?thesis
    by (rule conjI [OF j conjI [OF a conjI [OF b c]]])
qed

text \<open>
  Claim C3, amended. When the reads of a pull stream each end at a line break and their
  non-blank lines are a prefix that is processed to the end, then a line that parses to an
  event whose error is a non-empty string, then anything, the pull ends in the state the
  prefix left, with that error string as the displayed error and the pull no longer in
  progress. Nothing that follows the error line, and not how the stream ends, has any
  influence; the only request sent is the one POST; and the pull is marked complete
  exactly if a line of the prefix already carried the status \<open>success\<close>.
\<close>

theorem pull_error_event_stops:
  assumes "pullModelName st \<noteq> []"
    and "\<forall>l \<in> set (concat groups). CHR 0x0A \<notin> set l"
    and "filter (\<lambda>l. trim l \<noteq> []) (concat groups) = pre @ line # post"
    and "pull_lines parse pre (pull_begin st) = Next s"
    and "parse line = Some data" and "error data = Some e" and "e \<noteq> []"
  shows "startPull parse
           (Fetch_response \<lparr>ok = True, http_status = code, chunks = map whole_lines groups,
                            ending = fin\<rparr>) st =
           s\<lparr>pullError := Some e, pullInProgress := False\<rparr>
         \<and> requests (effects (s\<lparr>pullError := Some e, pullInProgress := False\<rparr>)) =
             requests (effects st) @
               [Fetch (baseURL st @ ''/llmm/'' @ selectedHost st @ ''/pull'') ''POST''
                  (Obj [(''model_name'', Str (pullModelName st))])]
         \<and> pullComplete (s\<lparr>pullError := Some e, pullInProgress := False\<rparr>) =
             (\<exists>l \<in> set pre. \<exists>d. parse l = Some d \<and> status d = Some ''success'')"
proof -
  have sp: "concat (map pull_chunk_lines (map whole_lines groups)) = pre @ line # post"
    using read_lines_whole_lines [OF assms(2)] assms(3) by simp
  have a: "startPull parse
           (Fetch_response \<lparr>ok = True, http_status = code, chunks = map whole_lines groups,
                            ending = fin\<rparr>) st =
           s\<lparr>pullError := Some e, pullInProgress := False\<rparr>"
    by (rule pull_error_line_returns [OF assms(1) sp assms(4,5,6,7)])
  have b: "requests (effects (s\<lparr>pullError := Some e, pullInProgress := False\<rparr>)) =
             requests (effects st) @
               [Fetch (baseURL st @ ''/llmm/'' @ selectedHost st @ ''/pull'') ''POST''
                  (Obj [(''model_name'', Str (pullModelName st))])]"
    using pull_lines_Next_requests [OF assms(4)] by (simp add: pull_begin_requests)
  have c: "pullComplete (s\<lparr>pullError := Some e, pullInProgress := False\<rparr>) =
             (\<exists>l \<in> set pre. \<exists>d. parse l = Some d \<and> status d = Some ''success'')"
    using pull_lines_complete [OF assms(4)] by simp
  show ?thesis
    by (rule conjI [OF a conjI [OF b c]])
qed

theorem pull_error_event_stops_witness:
  "startPull example_parse_progress
     (Fetch_response \<lparr>ok = True, http_status = 200,
        chunks = [whole_lines [line_manifest, line_downloading], whole_lines [line_error, line_success]],
        ending = Closed\<rparr>) pulling =
     pulling\<lparr>pullStatus := ''downloading'', pullProgress := 25,
             pullError := Some ''pull model manifest: file does not exist'',
             effects := [Fetch ''http://localhost:8000/llmm/gpu-1/pull'' ''POST''
                           (Obj [(''model_name'', Str ''llama3'')])]\<rparr>
   \<and> \<not> pullComplete (startPull example_parse_progress
     (Fetch_response \<lparr>ok = True, http_status = 200,
        chunks = [whole_lines [line_manifest, line_downloading], whole_lines [line_error, line_success]],
        ending = Closed\<rparr>) pulling)"
proof -
  let ?groups = "[[line_manifest, line_downloading], [line_error, line_success]]"
  let ?s = "(pull_begin pulling)\<lparr>pullStatus := ''downloading'', pullProgress := 25\<rparr>"
  have ne: "pullModelName pulling \<noteq> []" by (simp add: pulling_props)
  have nl: "\<forall>l \<in> set (concat ?groups). CHR 0x0A \<notin> set l"
    by (simp add: example_lines_newline_free)
  have sp: "filter (\<lambda>l. trim l \<noteq> []) (concat ?groups) =
              [line_manifest, line_downloading] @ line_error # [line_success]"
    by (simp add: example_lines_not_blank)
  have pre: "pull_lines example_parse_progress [line_manifest, line_downloading] (pull_begin pulling) = Next ?s"
    by (simp add: pull_eval)
  have ee: "''pull model manifest: file does not exist'' \<noteq> []" by simp
  note t = pull_error_event_stops [OF ne nl sp pre example_parse_progress_simps(4) _ ee, of 200 Closed]
  have eq: "startPull example_parse_progress
     (Fetch_response \<lparr>ok = True, http_status = 200,
        chunks = [whole_lines [line_manifest, line_downloading], whole_lines [line_error, line_success]],
        ending = Closed\<rparr>) pulling =
      ?s\<lparr>pullError := Some ''pull model manifest: file does not exist'', pullInProgress := False\<rparr>"
    using t by simp
  show ?thesis
    unfolding eq
    by (simp add: pull_begin_def pull_url_def emit_def pulling_def initial_def)
qed

subsection \<open>The chat stream\<close>

lemma fst_chat_line: "fst (chat_line parse line acc) = fst acc @ delta_text parse line"
  by (auto simp: chat_line_def delta_text_def Let_def truthy_string_def split: option.split)

lemma fst_chat_lines:
  "fst (foldl (\<lambda>a line. chat_line parse line a) acc ls) = fst acc @ concat (map (delta_text parse) ls)"
  by (induction ls arbitrary: acc) (simp_all add: fst_chat_line)

lemma chat_chunk_data_lines:
  "chat_chunk parse chunk acc =
     foldl (\<lambda>a line. chat_line parse line a) acc
       (filter (\<lambda>line. startsWith line ''data: '') (split_newline chunk))"
  by (simp add: chat_chunk_def chat_chunk_lines_data)

lemma chat_chunk_whole_lines:
  assumes "\<forall>l \<in> set ls. CHR 0x0A \<notin> set l"
  shows "chat_chunk parse (whole_lines ls) acc =
           foldl (\<lambda>a line. chat_line parse line a) acc (filter (\<lambda>line. startsWith line ''data: '') ls)"
  by (simp add: chat_chunk_def chat_chunk_lines_whole_lines [OF assms])

lemma chat_read_whole_lines:
  assumes "\<forall>l \<in> set (concat groups). CHR 0x0A \<notin> set l"
  shows "chat_read parse (map whole_lines groups) acc =
           foldl (\<lambda>a line. chat_line parse line a) acc
             (filter (\<lambda>line. startsWith line ''data: '') (concat groups))"
  using assms
proof (induction groups arbitrary: acc)
  case Nil
  show ?case by (simp add: chat_read_def)
next
  case (Cons g groups)
  have g: "\<forall>l \<in> set g. CHR 0x0A \<notin> set l"
    and rest: "\<forall>l \<in> set (concat groups). CHR 0x0A \<notin> set l"
    using Cons.prems by auto
  show ?case
    using Cons.IH [OF rest] by (simp add: chat_read_def chat_chunk_whole_lines [OF g])
qed

lemma chat_line_done: "chat_line parse ''data: [DONE]'' acc = acc"
  by (simp add: chat_line_def startsWith_def)

lemma delta_text_data:
  "delta_text parse (''data: '' @ p) =
     (if p = ''[DONE]'' then [] else (case parse p of Some (Some c) \<Rightarrow> c | _ \<Rightarrow> []))"
proof -
  have "startsWith (''data: '' @ p) ''data: ''" by (simp add: startsWith_def)
  then have "replace (''data: '' @ p) ''data: '' [] = p"
    using replace_prefix [of "''data: '' @ p" "''data: ''"] by simp
  then show ?thesis by (simp add: delta_text_def)
qed

lemma frames_whole_lines:
  "concat (map (\<lambda>(p, c). sse_frame p) g) = whole_lines (event_lines g)"
  by (induction g) (auto simp: sse_frame_def whole_lines_def event_lines_def)

lemma event_lines_Cons: "event_lines ((p, c) # g) = (''data: '' @ p) # [] # event_lines g"
  by (simp add: event_lines_def)

lemma event_lines_append: "event_lines (g @ h) = event_lines g @ event_lines h"
  by (simp add: event_lines_def)

lemma event_lines_concat: "concat (map event_lines groups) = event_lines (concat groups)"
  by (induction groups) (simp_all add: event_lines_append, simp add: event_lines_def)

lemma event_lines_newline_free:
  assumes "\<forall>(p, c) \<in> set g. CHR 0x0A \<notin> set p"
  shows "\<forall>l \<in> set (event_lines g). CHR 0x0A \<notin> set l"
  using assms by (induction g) (auto simp: event_lines_def)

lemma event_lines_text:
  assumes "\<forall>(p, c) \<in> set g. p \<noteq> ''[DONE]'' \<and> parse p = Some (Some c)"
  shows "concat (map (delta_text parse) (filter (\<lambda>line. startsWith line ''data: '') (event_lines g))) =
           concat (map snd g)"
  using assms
proof (induction g)
  case Nil
  show ?case by (simp add: event_lines_def)
next
  case (Cons ev g)
  obtain p c where ev: "ev = (p, c)" by (cases ev)
  have sw: "startsWith (''data: '' @ p) ''data: ''" by (simp add: startsWith_def)
  show ?case
    using Cons ev sw by (simp add: event_lines_Cons delta_text_data del: append.simps)
qed

lemma chat_reply_closed:
  "chat_reply parse (Fetch_response \<lparr>ok = True, http_status = code, chunks = cs, ending = Closed\<rparr>) history =
     (history @ [\<lparr>role = ''assistant'', content = fst (chat_read parse cs ([], []))\<rparr>],
      snd (chat_read parse cs ([], [])))"
  by (simp add: chat_reply_def Let_def split: prod.split)

lemma requests_chat_line: "requests (snd (chat_line parse line acc)) = requests (snd acc)"
  by (simp add: chat_line_def Let_def split: option.split)

lemma requests_chat_lines:
  "requests (snd (foldl (\<lambda>a line. chat_line parse line a) acc ls)) = requests (snd acc)"
  by (induction ls arbitrary: acc) (simp_all add: requests_chat_line)

lemma requests_chat_read: "requests (snd (chat_read parse cs acc)) = requests (snd acc)"
  by (induction cs arbitrary: acc) (simp_all add: chat_read_def chat_chunk_def requests_chat_lines)

lemma requests_chat_reply: "requests (snd (chat_reply parse result history)) = []"
proof (cases result)
  case (Fetch_rejected m)
  then show ?thesis by (simp add: chat_reply_def)
next
  case (Fetch_response response)
  have "requests (snd (chat_read parse (chunks response) ([], []))) = []"
    by (simp add: requests_chat_read)
  then show ?thesis
    using Fetch_response
    by (cases "ending response")
       (simp_all add: chat_reply_def Let_def case_prod_beta)
qed

lemma sendMessage_sent:
  assumes "trim (chatInput st) \<noteq> []"
  shows "sendMessage parse result st =
           st\<lparr>chatHistory :=
                fst (chat_reply parse result (chatHistory st @ [\<lparr>role = ''user'', content = chatInput st\<rparr>])),
              chatInput := [], chatLoading := False,
              effects := effects st @
                Fetch (baseURL st @ ''/llmm/'' @ selectedHost st @ ''/chat'') ''POST''
                  (chat_body (chatHistory st @ [\<lparr>role = ''user'', content = chatInput st\<rparr>]) (selectedModel st)) #
                snd (chat_reply parse result (chatHistory st @ [\<lparr>role = ''user'', content = chatInput st\<rparr>]))\<rparr>"
  using assms by (simp add: sendMessage_def Let_def emit_def split: prod.split)

lemma ChatView_sendMessage_sent:
  assumes "trim (cv_chatInput v) \<noteq> []"
  shows "ChatView_sendMessage parse result v =
           v\<lparr>cv_chatHistory :=
                fst (chat_reply parse result (cv_chatHistory v @ [\<lparr>role = ''user'', content = cv_chatInput v\<rparr>])),
              cv_chatInput := [], cv_chatLoading := False,
              cv_effects := cv_effects v @
                Fetch (cv_baseURL v @ ''/llmm/'' @ label v @ ''/chat'') ''POST''
                  (chat_body (cv_chatHistory v @ [\<lparr>role = ''user'', content = cv_chatInput v\<rparr>]) (cv_selectedModel v)) #
                snd (chat_reply parse result (cv_chatHistory v @ [\<lparr>role = ''user'', content = cv_chatInput v\<rparr>]))\<rparr>"
  using assms by (simp add: ChatView_sendMessage_def Let_def split: prod.split)

lemmas chat_eval = chat_chunk_def chat_chunk_lines_def chat_line_def chat_read_def trim_def
  js_whitespace_def startsWith_def Let_def truthy_string_def

lemma example_parse_delta_simps:
  "example_parse_delta payload_hello = Some (Some ''Hello'')"
  "example_parse_delta payload_world = Some (Some '' world'')"
  "example_parse_delta payload_role = Some None"
  by (simp_all add: example_parse_delta_def payload_hello_def payload_world_def payload_role_def)

lemma chatting_props:
  "chatInput chatting = ''Hi''" "chatHistory chatting = []" "selectedModel chatting = ''llama3''"
  "baseURL chatting = ''http://localhost:8000''" "selectedHost chatting = ''gpu-1''"
  "effects chatting = []"
  by (simp_all add: chatting_def initial_def)

lemma viewing_props:
  "cv_chatInput viewing = ''Hi''" "cv_chatHistory viewing = []" "cv_selectedModel viewing = ''llama3''"
  "cv_baseURL viewing = ''http://localhost:8000''" "label viewing = ''gpu-1''"
  "cv_effects viewing = []"
  by (simp_all add: viewing_def)

lemma trim_Hi: "trim ''Hi'' \<noteq> []"
  by (simp add: trim_def js_whitespace_def)

text \<open>
  Claim C4. With a non-blank input both components send one POST to the host's chat path
  whose body has exactly the fields \<open>messages\<close> (the history with the new user message),
  \<open>stream: true\<close> and \<open>model\<close>. Of each chunk only the lines that start with \<open>data: \<close>
  are processed; the line \<open>data: [DONE]\<close> changes nothing, whatever the parser would make
  of it; and when the stream ends the loading flag is off and the history has grown by the
  user message and the assistant message read from the stream.
\<close>

theorem chat_wire_contract:
  assumes "trim (chatInput st) \<noteq> []" and "trim (cv_chatInput v) \<noteq> []"
  shows "requests (effects (sendMessage parse result st)) =
           requests (effects st) @
             [Fetch (baseURL st @ ''/llmm/'' @ selectedHost st @ ''/chat'') ''POST''
                (Obj [(''messages'',
                         Arr (map message_json (chatHistory st @ [\<lparr>role = ''user'', content = chatInput st\<rparr>]))),
                      (''stream'', Bool True),
                      (''model'', Str (selectedModel st))])]
         \<and> requests (cv_effects (ChatView_sendMessage parse result v)) =
           requests (cv_effects v) @
             [Fetch (cv_baseURL v @ ''/llmm/'' @ label v @ ''/chat'') ''POST''
                (Obj [(''messages'',
                         Arr (map message_json (cv_chatHistory v @ [\<lparr>role = ''user'', content = cv_chatInput v\<rparr>]))),
                      (''stream'', Bool True),
                      (''model'', Str (cv_selectedModel v))])]
         \<and> chat_chunk parse chunk acc =
             foldl (\<lambda>a line. chat_line parse line a) acc
               (filter (\<lambda>line. startsWith line ''data: '') (split_newline chunk))
         \<and> chat_line parse ''data: [DONE]'' acc = acc
         \<and> \<not> chatLoading (sendMessage parse result st)
         \<and> \<not> cv_chatLoading (ChatView_sendMessage parse result v)
         \<and> chatHistory (sendMessage parse
               (Fetch_response \<lparr>ok = True, http_status = code, chunks = cs, ending = Closed\<rparr>) st) =
             chatHistory st @
               [\<lparr>role = ''user'', content = chatInput st\<rparr>,
                \<lparr>role = ''assistant'', content = fst (chat_read parse cs ([], []))\<rparr>]
         \<and> cv_chatHistory (ChatView_sendMessage parse
               (Fetch_response \<lparr>ok = True, http_status = code, chunks = cs, ending = Closed\<rparr>) v) =
             cv_chatHistory v @
               [\<lparr>role = ''user'', content = cv_chatInput v\<rparr>,
                \<lparr>role = ''assistant'', content = fst (chat_read parse cs ([], []))\<rparr>]"
proof -
  note s = sendMessage_sent [OF assms(1)] ChatView_sendMessage_sent [OF assms(2)]
  have a: "requests (effects (sendMessage parse result st)) =
           requests (effects st) @
             [Fetch (baseURL st @ ''/llmm/'' @ selectedHost st @ ''/chat'') ''POST''
                (Obj [(''messages'',
                         Arr (map message_json (chatHistory st @ [\<lparr>role = ''user'', content = chatInput st\<rparr>]))),
                      (''stream'', Bool True),
                      (''model'', Str (selectedModel st))])]"
    by (simp add: s requests_chat_reply chat_body_def)
  have b: "requests (cv_effects (ChatView_sendMessage parse result v)) =
           requests (cv_effects v) @
             [Fetch (cv_baseURL v @ ''/llmm/'' @ label v @ ''/chat'') ''POST''
                (Obj [(''messages'',
                         Arr (map message_json (cv_chatHistory v @ [\<lparr>role = ''user'', content = cv_chatInput v\<rparr>]))),
                      (''stream'', Bool True),
                      (''model'', Str (cv_selectedModel v))])]"
    by (simp add: s requests_chat_reply chat_body_def)
  have c: "\<not> chatLoading (sendMessage parse result st)"
    "\<not> cv_chatLoading (ChatView_sendMessage parse result v)"
    by (simp_all add: s)
  have d: "chatHistory (sendMessage parse
               (Fetch_response \<lparr>ok = True, http_status = code, chunks = cs, ending = Closed\<rparr>) st) =
             chatHistory st @
               [\<lparr>role = ''user'', content = chatInput st\<rparr>,
                \<lparr>role = ''assistant'', content = fst (chat_read parse cs ([], []))\<rparr>]"
    "cv_chatHistory (ChatView_sendMessage parse
               (Fetch_response \<lparr>ok = True, http_status = code, chunks = cs, ending = Closed\<rparr>) v) =
             cv_chatHistory v @
               [\<lparr>role = ''user'', content = cv_chatInput v\<rparr>,
                \<lparr>role = ''assistant'', content = fst (chat_read parse cs ([], []))\<rparr>]"
    by (simp_all add: s chat_reply_closed)
  show ?thesis
    using a b c d chat_chunk_data_lines [of parse chunk acc] chat_line_done [of parse acc]
    by simp
qed

theorem chat_wire_contract_witness:
  "requests (effects (sendMessage example_parse_delta (Fetch_rejected ''Failed to fetch'') chatting)) =
     [Fetch ''http://localhost:8000/llmm/gpu-1/chat'' ''POST''
        (Obj [(''messages'', Arr [Obj [(''role'', Str ''user''), (''content'', Str ''Hi'')]]),
              (''stream'', Bool True), (''model'', Str ''llama3'')])]
   \<and> requests (cv_effects (ChatView_sendMessage example_parse_delta (Fetch_rejected ''Failed to fetch'') viewing)) =
     [Fetch ''http://localhost:8000/llmm/gpu-1/chat'' ''POST''
        (Obj [(''messages'', Arr [Obj [(''role'', Str ''user''), (''content'', Str ''Hi'')]]),
              (''stream'', Bool True), (''model'', Str ''llama3'')])]
   \<and> chat_chunk example_parse_delta mixed_chunk ([], []) = (''Hello'', [])
   \<and> map content (chatHistory (sendMessage example_parse_delta
        (Fetch_response \<lparr>ok = True, http_status = 200, chunks = [mixed_chunk], ending = Closed\<rparr>)
        chatting)) = [''Hi'', ''Hello'']"
proof -
  have t: "trim (chatInput chatting) \<noteq> []" "trim (cv_chatInput viewing) \<noteq> []"
    by (simp_all add: chatting_props viewing_props trim_Hi)
  note w = chat_wire_contract [OF t, of example_parse_delta "Fetch_rejected ''Failed to fetch''"
      mixed_chunk "([], [])" 200 "[mixed_chunk]"]
  have lines: "filter (\<lambda>line. startsWith line ''data: '') (split_newline mixed_chunk) =
      [''data: '' @ payload_hello, ''data: [DONE]'']"
    by (simp add: mixed_chunk_def startsWith_def payload_hello_def)
  have "chat_chunk example_parse_delta mixed_chunk ([], []) =
      foldl (\<lambda>a line. chat_line example_parse_delta line a) ([], [])
        [''data: '' @ payload_hello, ''data: [DONE]'']"
    using w [THEN conjunct2, THEN conjunct2, THEN conjunct1] unfolding lines .
  moreover have "payload_hello \<noteq> ''[DONE]''"
    by (simp add: payload_hello_def)
  ultimately have k: "chat_chunk example_parse_delta mixed_chunk ([], []) = (''Hello'', [])"
    by (simp add: chat_line_def startsWith_def example_parse_delta_simps truthy_string_def)
  then have r: "fst (chat_read example_parse_delta [mixed_chunk] ([], [])) = ''Hello''"
    by (simp add: chat_read_def)
  show ?thesis
    using w k r by (simp add: chatting_props viewing_props message_json_def)
qed

text \<open>
  Claim C5 as stated holds for any chunking of the byte stream into reads. When a read
  ends inside a line, the first piece does not parse and the second does not start with
  \<open>data: \<close>, so the delta is dropped: the same event that yields \<open>Hello\<close> in one read
  yields nothing in two.
\<close>

theorem chat_split_line_counterexample:
  "split_first @ split_second = sse_frame payload_hello
   \<and> example_parse_delta payload_hello = Some (Some ''Hello'')
   \<and> map content (chatHistory (sendMessage example_parse_delta
        (Fetch_response \<lparr>ok = True, http_status = 200, chunks = [split_first @ split_second], ending = Closed\<rparr>)
        chatting)) = [''Hi'', ''Hello'']
   \<and> map content (chatHistory (sendMessage example_parse_delta
        (Fetch_response \<lparr>ok = True, http_status = 200, chunks = [split_first, split_second], ending = Closed\<rparr>)
        chatting)) = [''Hi'', []]
   \<and> map content (cv_chatHistory (ChatView_sendMessage example_parse_delta
        (Fetch_response \<lparr>ok = True, http_status = 200, chunks = [split_first, split_second], ending = Closed\<rparr>)
        viewing)) = [''Hi'', []]"
proof -
  have j: "split_first @ split_second = sse_frame payload_hello"
    by (simp add: split_first_def split_second_def sse_frame_def payload_hello_def)
  have whole: "fst (chat_read example_parse_delta [split_first @ split_second] ([], [])) = ''Hello''"
    by (simp add: split_first_def split_second_def chat_eval example_parse_delta_def
        payload_hello_def payload_world_def payload_role_def)
  have parts: "fst (chat_read example_parse_delta [split_first, split_second] ([], [])) = []"
    by (simp add: split_first_def split_second_def chat_eval example_parse_delta_def
        payload_hello_def payload_world_def payload_role_def)
  have t: "trim (chatInput chatting) \<noteq> []" "trim (cv_chatInput viewing) \<noteq> []"
    by (simp_all add: chatting_props viewing_props trim_Hi)
  show ?thesis
    using j whole parts
    by (simp add: sendMessage_sent [OF t(1)] ChatView_sendMessage_sent [OF t(2)] chat_reply_closed
        chatting_props viewing_props example_parse_delta_simps)
qed

text \<open>
  Claim C5, amended. For every sequence of chat delta events delivered in reads that each
  end at the end of an event, the final content of the assistant message is the
  concatenation, in arrival order, of the contents of all delta events, with or without
  the final sentinel; in both components.
\<close>

theorem chat_content_whole_lines:
  assumes "trim (chatInput st) \<noteq> []" and "trim (cv_chatInput v) \<noteq> []"
    and "\<forall>(p, c) \<in> set (concat groups). CHR 0x0A \<notin> set p \<and> p \<noteq> ''[DONE]'' \<and> parse p = Some (Some c)"
    and "cs = map (\<lambda>g. concat (map (\<lambda>(p, c). sse_frame p) g)) groups"
  shows "fst (chat_read parse cs ([], [])) = concat (map snd (concat groups))
         \<and> fst (chat_read parse (cs @ [sse_frame ''[DONE]'']) ([], [])) = concat (map snd (concat groups))
         \<and> chatHistory (sendMessage parse
               (Fetch_response \<lparr>ok = True, http_status = code, chunks = cs, ending = Closed\<rparr>) st) =
             chatHistory st @
               [\<lparr>role = ''user'', content = chatInput st\<rparr>,
                \<lparr>role = ''assistant'', content = concat (map snd (concat groups))\<rparr>]
         \<and> cv_chatHistory (ChatView_sendMessage parse
               (Fetch_response \<lparr>ok = True, http_status = code, chunks = cs, ending = Closed\<rparr>) v) =
             cv_chatHistory v @
               [\<lparr>role = ''user'', content = cv_chatInput v\<rparr>,
                \<lparr>role = ''assistant'', content = concat (map snd (concat groups))\<rparr>]"
proof -
  have cs: "cs = map whole_lines (map event_lines groups)"
    by (simp add: assms(4) frames_whole_lines)
  have ev: "\<forall>(p, c) \<in> set (concat groups). CHR 0x0A \<notin> set p"
    and ps: "\<forall>(p, c) \<in> set (concat groups). p \<noteq> ''[DONE]'' \<and> parse p = Some (Some c)"
    using assms(3) by auto
  have nl: "\<forall>l \<in> set (concat (map event_lines groups)). CHR 0x0A \<notin> set l"
    unfolding event_lines_concat by (rule event_lines_newline_free [OF ev])
  have rd: "chat_read parse cs acc =
          foldl (\<lambda>a line. chat_line parse line a) acc
            (filter (\<lambda>line. startsWith line ''data: '') (event_lines (concat groups)))" for acc
    unfolding cs chat_read_whole_lines [OF nl] event_lines_concat ..
  have a: "fst (chat_read parse cs ([], [])) = concat (map snd (concat groups))"
    by (simp add: rd fst_chat_lines event_lines_text [OF ps])
  have "sse_frame ''[DONE]'' = whole_lines [''data: [DONE]'', []]"
    by (simp add: sse_frame_def whole_lines_def)
  then have "chat_chunk parse (sse_frame ''[DONE]'') acc = acc" for acc
    by (simp add: chat_chunk_whole_lines startsWith_def chat_line_done)
  then have b: "fst (chat_read parse (cs @ [sse_frame ''[DONE]'']) ([], [])) = concat (map snd (concat groups))"
    using a by (simp add: chat_read_def)
  show ?thesis
    using a b
    by (simp add: sendMessage_sent [OF assms(1)] ChatView_sendMessage_sent [OF assms(2)]
        chat_reply_closed)
qed

theorem chat_content_whole_lines_witness:
  "map content (chatHistory (sendMessage example_parse_delta
        (Fetch_response \<lparr>ok = True, http_status = 200,
           chunks = [sse_frame payload_hello, sse_frame payload_world], ending = Closed\<rparr>)
        chatting)) = [''Hi'', ''Hello world'']
   \<and> map content (cv_chatHistory (ChatView_sendMessage example_parse_delta
        (Fetch_response \<lparr>ok = True, http_status = 200,
           chunks = [sse_frame payload_hello, sse_frame payload_world], ending = Closed\<rparr>)
        viewing)) = [''Hi'', ''Hello world'']"
proof -
  have t: "trim (chatInput chatting) \<noteq> []" "trim (cv_chatInput viewing) \<noteq> []"
    by (simp_all add: chatting_props viewing_props trim_Hi)
  have h: "\<forall>(p, c) \<in> set (concat [[(payload_hello, ''Hello'')], [(payload_world, '' world'')]]).
             CHR 0x0A \<notin> set p \<and> p \<noteq> ''[DONE]'' \<and> example_parse_delta p = Some (Some c)"
    by (simp add: example_parse_delta_simps) (simp add: payload_hello_def payload_world_def)
  have c: "[sse_frame payload_hello, sse_frame payload_world] =
        map (\<lambda>g. concat (map (\<lambda>(p, c). sse_frame p) g))
          [[(payload_hello, ''Hello'')], [(payload_world, '' world'')]]"
    by simp
  show ?thesis
    using chat_content_whole_lines [OF t h c, of 200]
    by (simp add: chatting_props viewing_props)
qed

end
